theory Spec2Isabelle
  imports Main
begin

section \<open>JavaScript values, exceptions and the ambient environment\<close>

text \<open>
  JSON payloads travel through the platform unchanged (request bodies, job data, event
  bodies, notification data).  They are modelled by the values JSON can carry, with
  \<open>Undefined\<close> for a property that is not there; numbers are restricted to integers.
  An \<open>Obj\<close> lists the properties of an object, each name once.
\<close>

datatype jsval =
    Undefined
  | Null
  | Bool bool
  | Num int
  | Str string
  | Arr "jsval list"
  | Obj "(string \<times> jsval) list"

text \<open>A thrown JavaScript exception, with its \<^verbatim>\<open>message\<close>.\<close>

datatype error = Error string | TypeError string | SyntaxError string

fun error_message :: "error \<Rightarrow> string" where
  "error_message (Error m) = m"
| "error_message (TypeError m) = m"
| "error_message (SyntaxError m) = m"

text \<open>The test of \<^verbatim>\<open>if (v)\<close>, \<^verbatim>\<open>v && ...\<close> and \<^verbatim>\<open>v || ...\<close>.\<close>

fun truthy :: "jsval \<Rightarrow> bool" where
  "truthy Undefined = False"
| "truthy Null = False"
| "truthy (Bool b) = b"
| "truthy (Num n) = (n \<noteq> 0)"
| "truthy (Str s) = (s \<noteq> [])"
| "truthy (Arr vs) = True"
| "truthy (Obj fs) = True"

definition decimalDigits :: string where
  "decimalDigits = ''0123456789''"

fun showNat :: "nat \<Rightarrow> string" where
  "showNat n =
     (if n < 10 then [decimalDigits ! n]
      else showNat (n div 10) @ [decimalDigits ! (n mod 10)])"

declare showNat.simps [simp del]

definition showInt :: "int \<Rightarrow> string" where
  "showInt i = (if i < 0 then CHR ''-'' # showNat (nat (- i)) else showNat (nat i))"

fun joinWith :: "string \<Rightarrow> string list \<Rightarrow> string" where
  "joinWith sep [] = []"
| "joinWith sep [s] = s"
| "joinWith sep (s # t # ss) = s @ sep @ joinWith sep (t # ss)"

text \<open>
  Reading a property \<^verbatim>\<open>v.k\<close>.  On \<^verbatim>\<open>null\<close> and \<^verbatim>\<open>undefined\<close> the read throws a
  \<^verbatim>\<open>TypeError\<close>, which \<open>nullish\<close> tests for; on every other value it yields the
  property or \<^verbatim>\<open>undefined\<close> (none of the names read in this program is a built-in
  property of a string, number or array).
\<close>

definition nullish :: "jsval \<Rightarrow> bool" where
  "nullish v = (v = Undefined \<or> v = Null)"

fun field :: "jsval \<Rightarrow> string \<Rightarrow> jsval" where
  "field (Obj fs) k = (case map_of fs k of Some v \<Rightarrow> v | None \<Rightarrow> Undefined)"
| "field v k = Undefined"

text \<open>Assignment to a property, as the object spread \<^verbatim>\<open>{ ...result, k: v }\<close> does it.\<close>

fun setProp :: "string \<Rightarrow> jsval \<Rightarrow> (string \<times> jsval) list \<Rightarrow> (string \<times> jsval) list" where
  "setProp k v [] = [(k, v)]"
| "setProp k v ((k', v') # fs) = (if k = k' then (k, v) # fs else (k', v') # setProp k v fs)"

text \<open>
  A Redis pub/sub message is a text.  It is either the JSON text of a value or a text that
  \<^verbatim>\<open>JSON.parse\<close> rejects with a \<^verbatim>\<open>SyntaxError\<close>.  \<^verbatim>\<open>JSON.stringify\<close> leaves out
  the properties that are \<^verbatim>\<open>undefined\<close> and writes \<^verbatim>\<open>null\<close> for such an array element.
\<close>

datatype message = Malformed string | Json jsval

fun dropUndefined :: "jsval \<Rightarrow> jsval" where
  "dropUndefined (Obj fs) =
     Obj (map (\<lambda>(k, v). (k, dropUndefined v)) (filter (\<lambda>(k, v). v \<noteq> Undefined) fs))"
| "dropUndefined (Arr vs) = Arr (map (\<lambda>v. if v = Undefined then Null else dropUndefined v) vs)"
| "dropUndefined v = v"

definition JSON_stringify :: "jsval \<Rightarrow> message" where
  "JSON_stringify v = Json (dropUndefined v)"

fun JSON_parse :: "message \<Rightarrow> error + jsval" where
  "JSON_parse (Malformed s) = Inl (SyntaxError ''Unexpected token in JSON'')"
| "JSON_parse (Json v) = Inr v"

text \<open>
  What the code reads from the clock and from the random generator:
  \<^verbatim>\<open>Date.now()\<close> (in decimal), \<^verbatim>\<open>new Date().toISOString()\<close>,
  \<^verbatim>\<open>Math.random().toString(36).substr(2, 9)\<close>, \<^verbatim>\<open>Math.floor(Math.random() * n)\<close>
  and the milliseconds between two readings of the clock.  One call of a function of the
  program reads each of them once.

  Two conversions of the platform are taken as they are: \<open>numberText n\<close> is the text
  JavaScript prints for the number that the JSON literal \<open>n\<close> parses to (plain decimal
  for the integers a double holds exactly, a rounded or exponent form beyond them), and
  \<open>nestedText v\<close> is the text the validation library makes of an array or object it
  finds where it expects a single value, which depends on its version.
\<close>

record env =
  dateNow :: string
  isoNow :: string
  randomSuffix :: string
  randomBelow :: "nat \<Rightarrow> nat"
  elapsedMs :: nat
  numberText :: "int \<Rightarrow> string"
  nestedText :: "jsval \<Rightarrow> string"

text \<open>
  The text a value becomes inside a template literal \<^verbatim>\<open>`${v}`\<close>, or the
  \<^verbatim>\<open>TypeError\<close> of the conversion.  An object prints as \<^verbatim>\<open>[object Object]\<close>
  unless it has a property \<^verbatim>\<open>toString\<close> of its own: a JSON value is never a function,
  so the conversion finds nothing to call and throws.  An array prints its elements
  joined by commas, \<^verbatim>\<open>null\<close> as the empty text, and throws when an element does.
\<close>

definition cannotConvert :: error where
  "cannotConvert = TypeError ''Cannot convert object to primitive value''"

fun toStr :: "env \<Rightarrow> jsval \<Rightarrow> error + string" where
  "toStr e Undefined = Inr ''undefined''"
| "toStr e Null = Inr ''null''"
| "toStr e (Bool b) = Inr (if b then ''true'' else ''false'')"
| "toStr e (Num n) = Inr (numberText e n)"
| "toStr e (Str s) = Inr s"
| "toStr e (Arr vs) =
     (case those (map (\<lambda>v. if v = Undefined \<or> v = Null then Some []
                            else (case toStr e v of Inl err \<Rightarrow> None | Inr t \<Rightarrow> Some t)) vs) of
        None \<Rightarrow> Inl cannotConvert
      | Some ts \<Rightarrow> Inr (joinWith '','' ts))"
| "toStr e (Obj fs) =
     (if ''toString'' \<in> set (map fst fs) then Inl cannotConvert
      else Inr ''[object Object]'')"

text \<open>\<^verbatim>\<open>s || d\<close> on an optional string: undefined and the empty string give the default.\<close>

definition orElse :: "string option \<Rightarrow> string \<Rightarrow> string" where
  "orElse s d = (case s of None \<Rightarrow> d | Some t \<Rightarrow> if t = [] then d else t)"

text \<open>\<^verbatim>\<open>n || d\<close> on an optional count: undefined and 0 give the default.\<close>

definition orCount :: "nat option \<Rightarrow> nat \<Rightarrow> nat" where
  "orCount n d = (case n of None \<Rightarrow> d | Some m \<Rightarrow> if m = 0 then d else m)"

definition optStr :: "string option \<Rightarrow> jsval" where
  "optStr s = (case s of None \<Rightarrow> Undefined | Some t \<Rightarrow> Str t)"

section \<open>Producer (queue/producer.js)\<close>

record backoffOptions =
  backoff_type :: string
  backoff_delay :: nat

record keepOptions =
  keep_count :: nat
  keep_age :: nat

record defaultOptions =
  attempts :: nat
  backoff :: backoffOptions
  removeOnComplete :: keepOptions
  removeOnFail :: keepOptions

text \<open>\<^verbatim>\<open>defaultJobOptions\<close> of \<^verbatim>\<open>new Queue('tasks', ...)\<close>.\<close>

definition defaultJobOptions :: defaultOptions where
  "defaultJobOptions =
     \<lparr> attempts = 3,
       backoff = \<lparr> backoff_type = ''exponential'', backoff_delay = 2000 \<rparr>,
       removeOnComplete = \<lparr> keep_count = 1000, keep_age = 24 * 3600 \<rparr>,
       removeOnFail = \<lparr> keep_count = 5000, keep_age = 7 * 24 * 3600 \<rparr> \<rparr>"

text \<open>The options of one job: the defaults of the queue and what \<^verbatim>\<open>add\<close> was given.\<close>

record jobOptions = defaultOptions +
  priority :: int
  jobId :: string

text \<open>
  \<^verbatim>\<open>job.data\<close> as the producer builds it: \<^verbatim>\<open>{ type, data, userId, createdAt }\<close>.
  The remaining fields are the properties the task processors read from \<^verbatim>\<open>job.data\<close>
  itself; the producer never sets them, so they are \<open>None\<close> (undefined) on every job it
  creates.
\<close>

record jobData =
  jd_type :: string
  jd_data :: jsval
  jd_userId :: "string option"
  jd_createdAt :: string
  jd_recipient :: "string option"
  jd_subject :: "string option"
  jd_reportType :: "string option"
  jd_format :: "string option"
  jd_batchId :: "string option"
  jd_recordCount :: "nat option"
  jd_imageUrl :: "string option"
  jd_operations :: "string list option"
  jd_targetWidth :: "nat option"
  jd_targetHeight :: "nat option"

record job =
  job_id :: string
  job_name :: string
  job_data :: jobData
  job_opts :: jobOptions
  attemptsMade :: nat
  processedOn :: "string option"

text \<open>The argument of \<^verbatim>\<open>addTaskToQueue\<close>; \<open>None\<close> is an undefined property.\<close>

record taskData =
  td_type :: string
  td_data :: jsval
  td_priority :: "int option"
  td_userId :: "string option"

text \<open>
  The queue store behind \<^verbatim>\<open>taskQueue\<close>: the jobs waiting, in the order they were
  added, and whether the store can be reached.
\<close>

record queue =
  waiting :: "job list"
  reachable :: bool

text \<open>
  Modelled from the spec: \<^verbatim>\<open>Queue.add\<close> is BullMQ's, not this repository's.  Section 4.1
  (\<^verbatim>\<open>enqueue(job) -> id\<close>) and section 7 (\<^verbatim>\<open>StoreUnavailableError\<close>): the job is
  appended behind the jobs already waiting, with the default options of the queue and no
  attempt made; an unreachable store rejects.
\<close>

definition taskQueue_add ::
  "queue \<Rightarrow> string \<Rightarrow> jobData \<Rightarrow> int \<Rightarrow> string \<Rightarrow> error + (job \<times> queue)" where
  "taskQueue_add q name d prio jid =
     (if \<not> reachable q then Inl (Error ''Connection is closed.'')
      else
        let j = \<lparr> job_id = jid, job_name = name, job_data = d,
                  job_opts = \<lparr> attempts = attempts defaultJobOptions,
                               backoff = backoff defaultJobOptions,
                               removeOnComplete = removeOnComplete defaultJobOptions,
                               removeOnFail = removeOnFail defaultJobOptions,
                               priority = prio, jobId = jid \<rparr>,
                  attemptsMade = 0, processedOn = None \<rparr>
        in Inr (j, q\<lparr> waiting := waiting q @ [j] \<rparr>))"

text \<open>
  \<^verbatim>\<open>addTaskToQueue\<close>: the priority defaults to 5 and the queue is handed
  \<^verbatim>\<open>10 - priority\<close>; the \<^verbatim>\<open>catch\<close> logs and throws the same error again.
\<close>

definition addTaskToQueue :: "env \<Rightarrow> taskData \<Rightarrow> queue \<Rightarrow> error + (job \<times> queue)" where
  "addTaskToQueue e t q =
     (let priority = (case td_priority t of None \<Rightarrow> 5 | Some p \<Rightarrow> p)
      in case taskQueue_add q (td_type t)
                \<lparr> jd_type = td_type t, jd_data = td_data t, jd_userId = td_userId t,
                  jd_createdAt = isoNow e,
                  jd_recipient = None, jd_subject = None, jd_reportType = None,
                  jd_format = None, jd_batchId = None, jd_recordCount = None,
                  jd_imageUrl = None, jd_operations = None, jd_targetWidth = None,
                  jd_targetHeight = None \<rparr>
                (10 - priority)
                (td_type t @ ''-'' @ dateNow e @ ''-'' @ randomSuffix e) of
           Inl err \<Rightarrow> Inl err
         | Inr r \<Rightarrow> Inr r)"

text \<open>
  Modelled from the spec: the dispatcher is BullMQ's, not this repository's.  Section 4.3, and
  the producer's own comment \<^verbatim>\<open>BullMQ: lower number = higher priority\<close>: among the waiting
  jobs the one with the lowest numeric priority handed to the queue goes first, jobs of
  equal priority in the order they were added.  \<open>dispatchOrder\<close> is the order in which
  the jobs waiting are started when nothing else is enqueued meanwhile.
\<close>

definition dispatchOrder :: "job list \<Rightarrow> job list" where
  "dispatchOrder ws = sort_key (\<lambda>j. priority (job_opts j)) ws"

text \<open>
  Modelled from the spec: the retry decision is BullMQ's, not this repository's.  Section 4.4:
  on a handler error \<^verbatim>\<open>attemptsMade\<close> is incremented, and the job is delayed for a retry
  if it is then still below \<^verbatim>\<open>maxAttempts\<close>, failed for good otherwise.
  \<open>attemptsMade j\<close> is the count the processor sees, before the increment.
\<close>

definition attemptsRemain :: "job \<Rightarrow> bool" where
  "attemptsRemain j = (attemptsMade j + 1 < attempts (job_opts j))"



section \<open>Task routes (routes/tasks.js)\<close>

text \<open>
  \<^verbatim>\<open>req.body\<close> of \<^verbatim>\<open>POST /api/tasks\<close> as it arrives: any JSON value under each
  name, \<open>Undefined\<close> for a name that is not there.
\<close>

record taskBody =
  b_type :: jsval
  b_data :: jsval
  b_priority :: jsval
  b_userId :: jsval

definition taskTypes :: "string list" where
  "taskTypes = [''email'', ''report'', ''dataProcessing'', ''imageProcessing'']"

text \<open>
  The validation library checks an array element by element, any other value as the one
  element; it checks the text of the element.
\<close>

definition elements :: "jsval \<Rightarrow> jsval list" where
  "elements v = (case v of Arr vs \<Rightarrow> vs | _ \<Rightarrow> [v])"

definition validatorText :: "env \<Rightarrow> jsval \<Rightarrow> string" where
  "validatorText e v =
     (case v of
        Undefined \<Rightarrow> []
      | Null \<Rightarrow> []
      | Bool b \<Rightarrow> (if b then ''true'' else ''false'')
      | Num n \<Rightarrow> numberText e n
      | Str s \<Rightarrow> s
      | _ \<Rightarrow> nestedText e v)"

text \<open>The number a text of digits with an optional sign stands for.\<close>

fun digitsValue :: "nat \<Rightarrow> string \<Rightarrow> nat option" where
  "digitsValue acc [] = Some acc"
| "digitsValue acc (c # cs) =
     (if c \<in> set decimalDigits then digitsValue (acc * 10 + (of_char c - 48)) cs else None)"

definition intText :: "string \<Rightarrow> int option" where
  "intText s =
     (case s of
        [] \<Rightarrow> None
      | c # cs \<Rightarrow>
          if c = CHR ''+'' then (if cs = [] then None else map_option int (digitsValue 0 cs))
          else if c = CHR ''-''
          then (if cs = [] then None else map_option (\<lambda>v. - int v) (digitsValue 0 cs))
          else map_option int (digitsValue 0 s))"

text \<open>
  \<^verbatim>\<open>isIn(values)\<close> and \<^verbatim>\<open>isInt({ min, max })\<close> on one element.  The text of an integer
  number is either its decimal digits or beyond every such range, so a number is tested
  as it is.
\<close>

definition isIn :: "env \<Rightarrow> string list \<Rightarrow> jsval \<Rightarrow> bool" where
  "isIn e values v = (validatorText e v \<in> set values)"

definition isInt :: "env \<Rightarrow> int \<Rightarrow> int \<Rightarrow> jsval \<Rightarrow> bool" where
  "isInt e lo hi v =
     (case v of
        Num n \<Rightarrow> lo \<le> n \<and> n \<le> hi
      | _ \<Rightarrow> (case intText (validatorText e v) of
                None \<Rightarrow> False
              | Some n \<Rightarrow> lo \<le> n \<and> n \<le> hi))"

text \<open>
  \<^verbatim>\<open>validateTask\<close> with \<^verbatim>\<open>validationResult\<close>: the messages of the checks that fail, in
  the order of the chain, one for each element that fails.  \<^verbatim>\<open>isObject\<close> is given the
  value as a whole and accepts objects only (not \<^verbatim>\<open>null\<close>, not an array);
  \<^verbatim>\<open>optional()\<close> skips the check of a property that is not there.
\<close>

definition validateTask :: "env \<Rightarrow> taskBody \<Rightarrow> string list" where
  "validateTask e b =
     concat (map (\<lambda>v. if isIn e taskTypes v then [] else [''Invalid task type''])
               (elements (b_type b)))
     @ (case b_data b of Obj fs \<Rightarrow> [] | _ \<Rightarrow> [''Data must be an object''])
     @ (if b_priority b = Undefined then []
        else concat (map (\<lambda>v. if isInt e 1 10 v then []
                               else [''Priority must be between 1 and 10''])
                       (elements (b_priority b))))"

text \<open>
  A plain body: the type is a text or not there, the priority an integer number or not
  there, the user a text or not there (\<open>None\<close> is a property that is not there).  The
  route is modelled on plain bodies; what becomes of an array that passes the validation
  as type or priority is up to BullMQ.
\<close>

record taskRequest =
  body_type :: "string option"
  body_data :: jsval
  body_priority :: "int option"
  body_userId :: "string option"

definition bodyOf :: "taskRequest \<Rightarrow> taskBody" where
  "bodyOf r =
     \<lparr> b_type = (case body_type r of None \<Rightarrow> Undefined | Some t \<Rightarrow> Str t),
       b_data = body_data r,
       b_priority = (case body_priority r of None \<Rightarrow> Undefined | Some p \<Rightarrow> Num p),
       b_userId = (case body_userId r of None \<Rightarrow> Undefined | Some u \<Rightarrow> Str u) \<rparr>"

text \<open>
  The requests with one of the four task types, an object as data and a priority that is
  either left out or an integer from 1 to 10.
\<close>

definition admissible :: "taskRequest \<Rightarrow> bool" where
  "admissible r =
     (body_type r \<in> {Some ''email'', Some ''report'', Some ''dataProcessing'',
                      Some ''imageProcessing''}
      \<and> (case body_data r of Obj fs \<Rightarrow> True | _ \<Rightarrow> False)
      \<and> (case body_priority r of None \<Rightarrow> True | Some p \<Rightarrow> 1 \<le> p \<and> p \<le> 10))"

record taskView =
  tv_id :: string
  tv_type :: string
  tv_status :: string
  tv_priority :: int
  tv_queuedAt :: string

text \<open>The three answers of the route: 400 with the errors, 201 with the task, 500.\<close>

datatype response =
    BadRequest "string list"
  | Created taskView
  | ServerError string

text \<open>
  \<^verbatim>\<open>router.post('/', validateTask, ...)\<close>.  A request that passes the validation has a
  \<^verbatim>\<open>type\<close>, so the first case below is never taken there.
\<close>

definition postTask :: "env \<Rightarrow> taskRequest \<Rightarrow> queue \<Rightarrow> response \<times> queue" where
  "postTask e r q =
     (if validateTask e (bodyOf r) \<noteq> []
      then (BadRequest (validateTask e (bodyOf r)), q)
      else
        let type = (case body_type r of None \<Rightarrow> ''undefined'' | Some t \<Rightarrow> t);
            priority = (case body_priority r of None \<Rightarrow> 5 | Some p \<Rightarrow> p)
        in case addTaskToQueue e
                  \<lparr> td_type = type, td_data = body_data r, td_priority = Some priority,
                    td_userId = Some (orElse (body_userId r) ''anonymous'') \<rparr> q of
             Inl err \<Rightarrow> (ServerError (error_message err), q)
           | Inr (j, q') \<Rightarrow>
               (Created \<lparr> tv_id = job_id j, tv_type = type, tv_status = ''queued'',
                          tv_priority = priority, tv_queuedAt = isoNow e \<rparr>, q'))"

section \<open>Worker (worker.js, processors/taskProcessor.js)\<close>

text \<open>
  What the worker does to the outside while it processes one job after the other:
  \<open>progress\<close> is \<^verbatim>\<open>job.progress\<close> as stored, \<open>progressLog\<close> the values passed to
  \<^verbatim>\<open>job.updateProgress\<close> so far, \<open>published\<close> the messages handed to the pub/sub
  connection.  \<open>writesLeft = Some k\<close> lets \<open>k\<close> more progress writes succeed and rejects
  the ones after them; \<open>pubReachable\<close> tells whether \<^verbatim>\<open>publish\<close> succeeds.
\<close>

record store =
  progress :: nat
  progressLog :: "nat list"
  published :: "(string \<times> message) list"
  writesLeft :: "nat option"
  pubReachable :: bool

text \<open>
  \<^verbatim>\<open>job.updateProgress(p)\<close> stores the value as it is given, or rejects when the store
  does; the stored progress changes in no other way.
\<close>

definition updateProgress :: "store \<Rightarrow> nat \<Rightarrow> error + store" where
  "updateProgress st p =
     (case writesLeft st of
        None \<Rightarrow> Inr (st\<lparr> progress := p, progressLog := progressLog st @ [p] \<rparr>)
      | Some 0 \<Rightarrow> Inl (Error ''Missing key for job'')
      | Some (Suc k) \<Rightarrow>
          Inr (st\<lparr> progress := p, progressLog := progressLog st @ [p], writesLeft := Some k \<rparr>))"

text \<open>
  \<^verbatim>\<open>publishTaskEvent\<close>: a failure of \<^verbatim>\<open>publish\<close> is caught and logged inside, so the
  function never throws.
\<close>

definition publishTaskEvent :: "store \<Rightarrow> string \<Rightarrow> jsval \<Rightarrow> store" where
  "publishTaskEvent st channel d =
     (if pubReachable st
      then st\<lparr> published := published st @ [(channel, JSON_stringify d)] \<rparr>
      else st)"

definition generateId :: "env \<Rightarrow> string" where
  "generateId e = dateNow e @ ''-'' @ randomSuffix e"

text \<open>
  The task processors take the job and return the properties of their result, or the
  error thrown, together with the store as they leave it.  \<^verbatim>\<open>delay\<close> only waits.
\<close>

definition processEmailTask ::
  "env \<Rightarrow> store \<Rightarrow> job \<Rightarrow> store \<times> (error + (string \<times> jsval) list)" where
  "processEmailTask e st j =
     (let d = job_data j
      in (st, Inr [(''status'', Str ''sent''),
                   (''recipient'', Str (orElse (jd_recipient d) ''user@example.com'')),
                   (''subject'', Str (orElse (jd_subject d) ''Notification'')),
                   (''sentAt'', Str (isoNow e)),
                   (''messageId'', Str (generateId e))]))"

text \<open>\<^verbatim>\<open>for (let i = 20; i <= 80; i += 20) { await jobData.updateProgress(i); ... }\<close>\<close>

function reportProgress :: "store \<Rightarrow> nat \<Rightarrow> store \<times> error option" where
  "reportProgress st i =
     (if i \<le> 80
      then (case updateProgress st i of
              Inl err \<Rightarrow> (st, Some err)
            | Inr st' \<Rightarrow> reportProgress st' (i + 20))
      else (st, None))"
  by pat_completeness auto
termination
  by (relation "measure (\<lambda>(st, i). 81 - i)") auto

declare reportProgress.simps [simp del]

definition processReportTask ::
  "env \<Rightarrow> store \<Rightarrow> job \<Rightarrow> store \<times> (error + (string \<times> jsval) list)" where
  "processReportTask e st j =
     (let d = job_data j
      in case reportProgress st 20 of
           (st', Some err) \<Rightarrow> (st', Inl err)
         | (st', None) \<Rightarrow>
             (st', Inr [(''status'', Str ''generated''),
                        (''reportType'', Str (orElse (jd_reportType d) ''general'')),
                        (''format'', Str (orElse (jd_format d) ''PDF'')),
                        (''fileSize'', Num (int (randomBelow e 5000 + 1000))),
                        (''downloadUrl'',
                           Str (''https://reports.example.com/'' @ generateId e @ ''.pdf'')),
                        (''generatedAt'', Str (isoNow e)),
                        (''reportId'', Str (generateId e))]))"

text \<open>
  \<^verbatim>\<open>for (let i = 0; i < recordCount; i += 10)\<close> with
  \<^verbatim>\<open>progress = Math.min(Math.floor((i / recordCount) * 80) + 10, 90)\<close>, in exact
  integer arithmetic.
\<close>

function processRecords :: "store \<Rightarrow> nat \<Rightarrow> nat \<Rightarrow> store \<times> error option" where
  "processRecords st recordCount i =
     (if i < recordCount
      then (case updateProgress st (min ((i * 80) div recordCount + 10) 90) of
              Inl err \<Rightarrow> (st, Some err)
            | Inr st' \<Rightarrow> processRecords st' recordCount (i + 10))
      else (st, None))"
  by pat_completeness auto
termination
  by (relation "measure (\<lambda>(st, recordCount, i). recordCount - i)") auto

declare processRecords.simps [simp del]

definition processDataProcessingTask ::
  "env \<Rightarrow> store \<Rightarrow> job \<Rightarrow> store \<times> (error + (string \<times> jsval) list)" where
  "processDataProcessingTask e st j =
     (let d = job_data j;
          recordCount = orCount (jd_recordCount d) 100
      in case processRecords st recordCount 0 of
           (st', Some err) \<Rightarrow> (st', Inl err)
         | (st', None) \<Rightarrow>
             (st', Inr [(''status'', Str ''processed''),
                        (''batchId'', Str (orElse (jd_batchId d) (generateId e))),
                        (''recordsProcessed'', Num (int recordCount)),
                        (''recordsFailed'', Num (int (randomBelow e 5))),
                        (''processingTime'', Num (int (recordCount * 10))),
                        (''processedAt'', Str (isoNow e))]))"

text \<open>
  \<^verbatim>\<open>for (let i = 0; i < operations.length; i++)\<close> with
  \<^verbatim>\<open>progress = Math.floor(((i + 1) / operations.length) * 80) + 10\<close>, in exact integer
  arithmetic.
\<close>

function applyOperations :: "store \<Rightarrow> string list \<Rightarrow> nat \<Rightarrow> store \<times> error option" where
  "applyOperations st operations i =
     (if i < length operations
      then (case updateProgress st (((i + 1) * 80) div length operations + 10) of
              Inl err \<Rightarrow> (st, Some err)
            | Inr st' \<Rightarrow> applyOperations st' operations (i + 1))
      else (st, None))"
  by pat_completeness auto
termination
  by (relation "measure (\<lambda>(st, operations, i). length operations - i)") auto

declare applyOperations.simps [simp del]

definition processImageProcessingTask ::
  "env \<Rightarrow> store \<Rightarrow> job \<Rightarrow> store \<times> (error + (string \<times> jsval) list)" where
  "processImageProcessingTask e st j =
     (let d = job_data j;
          operations = (case jd_operations d of
                          None \<Rightarrow> [''resize'', ''compress'', ''watermark'']
                        | Some ops \<Rightarrow> ops)
      in case applyOperations st operations 0 of
           (st', Some err) \<Rightarrow> (st', Inl err)
         | (st', None) \<Rightarrow>
             (st', Inr [(''status'', Str ''processed''),
                        (''originalImage'', Str (orElse (jd_imageUrl d) ''image.jpg'')),
                        (''processedImage'',
                           Str (''https://cdn.example.com/processed/'' @ generateId e @ ''.jpg'')),
                        (''operations'', Arr (map Str operations)),
                        (''dimensions'',
                           Obj [(''width'', Num (int (orCount (jd_targetWidth d) 1920))),
                                (''height'', Num (int (orCount (jd_targetHeight d) 1080)))]),
                        (''fileSize'', Num (int (randomBelow e 2000 + 500))),
                        (''processedAt'', Str (isoNow e)),
                        (''imageId'', Str (generateId e))]))"

text \<open>The \<^verbatim>\<open>default:\<close> branch of \<^verbatim>\<open>processTask\<close>.\<close>

definition processGenericTask ::
  "env \<Rightarrow> store \<Rightarrow> job \<Rightarrow> store \<times> (error + (string \<times> jsval) list)" where
  "processGenericTask e st j =
     (st, Inr [(''status'', Str ''completed''),
               (''taskType'', Str (job_name j)),
               (''message'', Str (''Task '' @ job_name j @ '' completed successfully'')),
               (''processedAt'', Str (isoNow e))])"

text \<open>
  \<^verbatim>\<open>processTask\<close>: the \<^verbatim>\<open>switch\<close> on the job name, the result extended by
  \<^verbatim>\<open>jobId\<close>, \<^verbatim>\<open>taskType\<close> and the two times, and the \<^verbatim>\<open>catch\<close> that wraps the error.
\<close>

definition processTask :: "env \<Rightarrow> store \<Rightarrow> job \<Rightarrow> store \<times> (error + jsval)" where
  "processTask e st j =
     (let name = job_name j
      in case (if name = ''email'' then processEmailTask e st j
               else if name = ''report'' then processReportTask e st j
               else if name = ''dataProcessing'' then processDataProcessingTask e st j
               else if name = ''imageProcessing'' then processImageProcessingTask e st j
               else processGenericTask e st j) of
           (st', Inl err) \<Rightarrow>
             (st', Inl (Error (''Task processing failed: '' @ error_message err)))
         | (st', Inr result) \<Rightarrow>
             (st', Inr (Obj
                (setProp ''processingCompleted'' (Str (isoNow e))
                  (setProp ''processingStarted''
                     (Str (case processedOn j of None \<Rightarrow> isoNow e | Some t \<Rightarrow> t))
                    (setProp ''taskType'' (Str name)
                      (setProp ''jobId'' (Str (job_id j)) result)))))))"

text \<open>The bodies of the two events the worker publishes.\<close>

definition completedEvent :: "env \<Rightarrow> string \<Rightarrow> job \<Rightarrow> jsval \<Rightarrow> jsval" where
  "completedEvent e workerName j result =
     Obj [(''jobId'', Str (job_id j)),
          (''taskType'', Str (job_name j)),
          (''userId'', optStr (jd_userId (job_data j))),
          (''result'', result),
          (''duration'', Num (int (elapsedMs e))),
          (''completedAt'', Str (isoNow e)),
          (''workerName'', Str workerName)]"

definition failedEvent :: "env \<Rightarrow> string \<Rightarrow> job \<Rightarrow> error \<Rightarrow> jsval" where
  "failedEvent e workerName j err =
     Obj [(''jobId'', Str (job_id j)),
          (''taskType'', Str (job_name j)),
          (''userId'', optStr (jd_userId (job_data j))),
          (''error'', Str (error_message err)),
          (''attemptsMade'', Num (int (attemptsMade j + 1))),
          (''failedAt'', Str (isoNow e)),
          (''workerName'', Str workerName)]"

text \<open>The \<^verbatim>\<open>catch\<close> block of the worker's processor: publish \<^verbatim>\<open>task:failed\<close>, throw again.\<close>

definition workerCatch ::
  "env \<Rightarrow> string \<Rightarrow> store \<Rightarrow> job \<Rightarrow> error \<Rightarrow> store \<times> (error + jsval)" where
  "workerCatch e workerName st j err =
     (publishTaskEvent st ''task:failed'' (failedEvent e workerName j err), Inl err)"

text \<open>
  The processor function given to \<^verbatim>\<open>new Worker('tasks', ...)\<close>: \<open>Inr\<close> is the value it
  returns, \<open>Inl\<close> the error it throws to BullMQ.
\<close>

definition worker :: "env \<Rightarrow> string \<Rightarrow> store \<Rightarrow> job \<Rightarrow> store \<times> (error + jsval)" where
  "worker e workerName st j =
     (case updateProgress st 10 of
        Inl err \<Rightarrow> workerCatch e workerName st j err
      | Inr st1 \<Rightarrow>
          (case processTask e st1 j of
             (st2, Inl err) \<Rightarrow> workerCatch e workerName st2 j err
           | (st2, Inr result) \<Rightarrow>
               (case updateProgress st2 90 of
                  Inl err \<Rightarrow> workerCatch e workerName st2 j err
                | Inr st3 \<Rightarrow>
                    (let st4 = publishTaskEvent st3 ''task:completed''
                                 (completedEvent e workerName j result)
                     in case updateProgress st4 100 of
                          Inl err \<Rightarrow> workerCatch e workerName st4 j err
                        | Inr st5 \<Rightarrow> (st5, Inr result)))))"

text \<open>
  \<open>reports st st' ps\<close>: from \<open>st\<close> to \<open>st'\<close> exactly the progress values \<open>ps\<close> were
  reported, in this order, the stored progress is the last of them, and nothing was
  published.
\<close>

definition reports :: "store \<Rightarrow> store \<Rightarrow> nat list \<Rightarrow> bool" where
  "reports st st' ps =
     (progressLog st' = progressLog st @ ps
      \<and> progress st' = (if ps = [] then progress st else last ps)
      \<and> published st' = published st
      \<and> pubReachable st' = pubReachable st)"

text \<open>
  What one run of the processor added: the progress values it reported and the messages
  it published.
\<close>

definition attemptProgress :: "store \<Rightarrow> store \<Rightarrow> nat list" where
  "attemptProgress st st' = drop (length (progressLog st)) (progressLog st')"

definition attemptPublished :: "store \<Rightarrow> store \<Rightarrow> (string \<times> message) list" where
  "attemptPublished st st' = drop (length (published st)) (published st')"

section \<open>Notification service (pubsub/subscriber.js)\<close>

text \<open>
  \<^verbatim>\<open>io.to(room).emit(event, n)\<close> and \<^verbatim>\<open>io.emit(event, n)\<close> are recorded as they are
  called; \<open>recipients\<close> gives the connected sockets an emit reaches.  A socket is in the
  rooms it joined (\<^verbatim>\<open>identify\<close> joins \<^verbatim>\<open>user:<userId>\<close>).
\<close>

datatype target = ToRoom string | ToAll

record notification =
  n_type :: string
  n_event :: string
  n_title :: jsval
  n_message :: jsval
  n_data :: jsval
  n_timestamp :: string

type_synonym emit = "target \<times> string \<times> notification"

record socket =
  socket_id :: string
  rooms :: "string list"

fun recipients :: "socket list \<Rightarrow> target \<Rightarrow> string list" where
  "recipients ss ToAll = map socket_id ss"
| "recipients ss (ToRoom r) = map socket_id (filter (\<lambda>s. r \<in> set (rooms s)) ss)"

definition nullRead :: error where
  "nullRead = TypeError ''Cannot read properties of null''"

text \<open>
  The handlers build the notification first, with the text of \<^verbatim>\<open>data.taskType\<close> in its
  message, and then convert \<^verbatim>\<open>data.userId\<close> for the name of the room: a conversion
  that throws does so before the first emit.
\<close>

definition handleTaskCompleted :: "env \<Rightarrow> jsval \<Rightarrow> error + emit list" where
  "handleTaskCompleted e d =
     (if nullish d then Inl nullRead
      else case toStr e (field d ''taskType'') of
        Inl err \<Rightarrow> Inl err
      | Inr taskType \<Rightarrow>
          let n = \<lparr> n_type = ''success'', n_event = ''task:completed'',
                    n_title = Str ''Task Completed Successfully'',
                    n_message = Str (''Your '' @ taskType @ '' task has been completed''),
                    n_data = Obj [(''jobId'', field d ''jobId''),
                                  (''taskType'', field d ''taskType''),
                                  (''result'', field d ''result''),
                                  (''duration'', field d ''duration''),
                                  (''completedAt'', field d ''completedAt''),
                                  (''workerName'', field d ''workerName'')],
                    n_timestamp = isoNow e \<rparr>
          in if truthy (field d ''userId'') \<and> field d ''userId'' \<noteq> Str ''anonymous''
             then (case toStr e (field d ''userId'') of
                     Inl err \<Rightarrow> Inl err
                   | Inr userId \<Rightarrow>
                       Inr [(ToRoom (''user:'' @ userId), ''notification'', n),
                            (ToRoom (''user:'' @ userId), ''task:completed'', n)])
             else Inr [(ToAll, ''notification'', n)])"

definition handleTaskFailed :: "env \<Rightarrow> jsval \<Rightarrow> error + emit list" where
  "handleTaskFailed e d =
     (if nullish d then Inl nullRead
      else case toStr e (field d ''taskType'') of
        Inl err \<Rightarrow> Inl err
      | Inr taskType \<Rightarrow>
          let n = \<lparr> n_type = ''error'', n_event = ''task:failed'',
                    n_title = Str ''Task Failed'',
                    n_message = Str (''Your '' @ taskType @ '' task has failed''),
                    n_data = Obj [(''jobId'', field d ''jobId''),
                                  (''taskType'', field d ''taskType''),
                                  (''error'', field d ''error''),
                                  (''attemptsMade'', field d ''attemptsMade''),
                                  (''failedAt'', field d ''failedAt''),
                                  (''workerName'', field d ''workerName'')],
                    n_timestamp = isoNow e \<rparr>
          in if truthy (field d ''userId'') \<and> field d ''userId'' \<noteq> Str ''anonymous''
             then (case toStr e (field d ''userId'') of
                     Inl err \<Rightarrow> Inl err
                   | Inr userId \<Rightarrow>
                       Inr [(ToRoom (''user:'' @ userId), ''notification'', n),
                            (ToRoom (''user:'' @ userId), ''task:failed'', n)])
             else Inr [(ToAll, ''notification'', n)])"

definition handleTaskStarted :: "env \<Rightarrow> jsval \<Rightarrow> error + emit list" where
  "handleTaskStarted e d =
     (if nullish d then Inl nullRead
      else case toStr e (field d ''taskType'') of
        Inl err \<Rightarrow> Inl err
      | Inr taskType \<Rightarrow>
          let n = \<lparr> n_type = ''info'', n_event = ''task:started'',
                    n_title = Str ''Task Started'',
                    n_message = Str (''Your '' @ taskType @ '' task is being processed''),
                    n_data = Obj [(''jobId'', field d ''jobId''),
                                  (''taskType'', field d ''taskType''),
                                  (''startedAt'', field d ''startedAt'')],
                    n_timestamp = isoNow e \<rparr>
          in if truthy (field d ''userId'') \<and> field d ''userId'' \<noteq> Str ''anonymous''
             then (case toStr e (field d ''userId'') of
                     Inl err \<Rightarrow> Inl err
                   | Inr userId \<Rightarrow> Inr [(ToRoom (''user:'' @ userId), ''notification'', n)])
             else Inr [])"

definition handleSystemBroadcast :: "env \<Rightarrow> jsval \<Rightarrow> error + emit list" where
  "handleSystemBroadcast e d =
     (if nullish d then Inl nullRead
      else
        let n = \<lparr> n_type = ''info'', n_event = ''system:broadcast'',
                  n_title = (if truthy (field d ''title'') then field d ''title''
                             else Str ''System Announcement''),
                  n_message = field d ''message'',
                  n_data = (if truthy (field d ''data'') then field d ''data'' else Obj []),
                  n_timestamp = isoNow e \<rparr>
        in Inr [(ToAll, ''notification'', n), (ToAll, ''system:broadcast'', n)])"

text \<open>
  The body of the \<^verbatim>\<open>try\<close> in the \<^verbatim>\<open>'message'\<close> handler: parse, print
  \<^verbatim>\<open>data.jobId\<close> and \<^verbatim>\<open>data.userId\<close> to the log (the read throws on \<^verbatim>\<open>null\<close>, the
  conversion to text on a value that has none), route on the channel.  Every throw
  happens before the first emit.
\<close>

definition routeMessage :: "env \<Rightarrow> string \<Rightarrow> message \<Rightarrow> error + emit list" where
  "routeMessage e channel m =
     (case JSON_parse m of
        Inl err \<Rightarrow> Inl err
      | Inr d \<Rightarrow>
          if nullish d then Inl nullRead
          else case toStr e (field d ''jobId'') of
            Inl err \<Rightarrow> Inl err
          | Inr jobIdText \<Rightarrow>
              (case toStr e (field d ''userId'') of
                 Inl err \<Rightarrow> Inl err
               | Inr userIdText \<Rightarrow>
                   if channel = ''task:completed'' then handleTaskCompleted e d
                   else if channel = ''task:failed'' then handleTaskFailed e d
                   else if channel = ''task:started'' then handleTaskStarted e d
                   else if channel = ''system:broadcast'' then handleSystemBroadcast e d
                   else Inr []))"

text \<open>
  The subscriber as it runs: what it has emitted through \<^verbatim>\<open>io\<close>, and the errors its
  \<^verbatim>\<open>catch\<close> has logged, each with the raw message.
\<close>

record subscriber =
  emitted :: "emit list"
  errorLog :: "(error \<times> message) list"

definition onMessage :: "env \<Rightarrow> subscriber \<Rightarrow> string \<Rightarrow> message \<Rightarrow> subscriber" where
  "onMessage e sub channel m =
     (case routeMessage e channel m of
        Inl err \<Rightarrow> sub\<lparr> errorLog := errorLog sub @ [(err, m)] \<rparr>
      | Inr es \<Rightarrow> sub\<lparr> emitted := emitted sub @ es \<rparr>)"

text \<open>The messages of a run, each with the clock at its arrival and its channel.\<close>

fun onMessages :: "subscriber \<Rightarrow> (env \<times> string \<times> message) list \<Rightarrow> subscriber" where
  "onMessages sub [] = sub"
| "onMessages sub ((e, channel, m) # ms) = onMessages (onMessage e sub channel m) ms"

text \<open>What reaches which socket: every emit, sent to each of its recipients.\<close>

definition deliveries :: "socket list \<Rightarrow> emit list \<Rightarrow> (string \<times> string \<times> notification) list" where
  "deliveries ss es =
     concat (map (\<lambda>(t, ev, n). map (\<lambda>sid. (sid, ev, n)) (recipients ss t)) es)"

text \<open>The sockets that receive anything at all.\<close>

definition receivers :: "socket list \<Rightarrow> emit list \<Rightarrow> string set" where
  "receivers ss es = set (map fst (deliveries ss es))"

text \<open>The targets and event names of the emits of a handler, \<open>None\<close> when it throws.\<close>

definition emitHeads :: "error + emit list \<Rightarrow> (target \<times> string) list option" where
  "emitHeads r = (case r of Inl _ \<Rightarrow> None | Inr es \<Rightarrow> Some (map (\<lambda>(t, ev, n). (t, ev)) es))"

section \<open>Concrete inputs\<close>

definition env0 :: env where
  "env0 = \<lparr> dateNow = ''1700000000000'', isoNow = ''2023-11-14T22:13:20.000Z'',
            randomSuffix = ''k3j9x0q1z'', randomBelow = (\<lambda>n. 0), elapsedMs = 1200,
            numberText = showInt, nestedText = (\<lambda>v. ''[object Object]'') \<rparr>"

definition queue0 :: queue where
  "queue0 = \<lparr> waiting = [], reachable = True \<rparr>"

definition store0 :: store where
  "store0 = \<lparr> progress = 0, progressLog = [], published = [], writesLeft = None,
              pubReachable = True \<rparr>"

definition taskP1 :: taskData where
  "taskP1 = \<lparr> td_type = ''email'', td_data = Obj [], td_priority = Some 1,
              td_userId = Some ''alice'' \<rparr>"

definition taskP2 :: taskData where
  "taskP2 = \<lparr> td_type = ''report'', td_data = Obj [], td_priority = Some 2,
              td_userId = Some ''bob'' \<rparr>"

text \<open>The queue \<^verbatim>\<open>addTaskToQueue\<close> leaves: the one it got, when it throws.\<close>

definition queueOf :: "queue \<Rightarrow> error + (job \<times> queue) \<Rightarrow> queue" where
  "queueOf q r = (case r of Inl _ \<Rightarrow> q | Inr (_, q') \<Rightarrow> q')"

text \<open>
  The job the producer creates at \<open>env0\<close> for the given name and user, with the given
  priority handed to the queue.
\<close>

definition jobFor :: "string \<Rightarrow> string \<Rightarrow> int \<Rightarrow> job" where
  "jobFor name uid prio =
     \<lparr> job_id = name @ ''-1700000000000-k3j9x0q1z'', job_name = name,
       job_data = \<lparr> jd_type = name, jd_data = Obj [], jd_userId = Some uid,
                    jd_createdAt = ''2023-11-14T22:13:20.000Z'',
                    jd_recipient = None, jd_subject = None, jd_reportType = None,
                    jd_format = None, jd_batchId = None, jd_recordCount = None,
                    jd_imageUrl = None, jd_operations = None, jd_targetWidth = None,
                    jd_targetHeight = None \<rparr>,
       job_opts = \<lparr> attempts = 3,
                    backoff = \<lparr> backoff_type = ''exponential'', backoff_delay = 2000 \<rparr>,
                    removeOnComplete = \<lparr> keep_count = 1000, keep_age = 86400 \<rparr>,
                    removeOnFail = \<lparr> keep_count = 5000, keep_age = 604800 \<rparr>,
                    priority = prio, jobId = name @ ''-1700000000000-k3j9x0q1z'' \<rparr>,
       attemptsMade = 0, processedOn = None \<rparr>"

text \<open>
  Two attempts at one report job.  In the first the store accepts three progress writes
  and rejects the fourth; the second runs on the store as the first left it (writes are
  accepted again), with the attempt counted.
\<close>

definition firstAttempt :: "store \<times> (error + jsval)" where
  "firstAttempt =
     worker env0 ''worker-1'' (store0\<lparr> writesLeft := Some 3 \<rparr>) (jobFor ''report'' ''alice'' 5)"

definition secondAttempt :: "store \<times> (error + jsval)" where
  "secondAttempt =
     worker env0 ''worker-1'' ((fst firstAttempt)\<lparr> writesLeft := None \<rparr>)
       ((jobFor ''report'' ''alice'' 5)\<lparr> attemptsMade := 1 \<rparr>)"

definition requestFor :: "string \<Rightarrow> int \<Rightarrow> string option \<Rightarrow> taskRequest" where
  "requestFor t p uid =
     \<lparr> body_type = Some t, body_data = Obj [], body_priority = Some p, body_userId = uid \<rparr>"

definition eventFor :: "jsval \<Rightarrow> jsval" where
  "eventFor uid = Obj [(''jobId'', Str ''email-1700000000000-k3j9x0q1z''),
                       (''taskType'', Str ''email''), (''userId'', uid)]"

definition sockets0 :: "socket list" where
  "sockets0 = [\<lparr> socket_id = ''s1'', rooms = [''s1'', ''user:alice''] \<rparr>,
               \<lparr> socket_id = ''s2'', rooms = [''s2'', ''user:bob''] \<rparr>,
               \<lparr> socket_id = ''s3'', rooms = [''s3''] \<rparr>]"

section \<open>Producer and dispatch order\<close>

lemma addTaskToQueue_Inr:
  assumes "addTaskToQueue e t q = Inr (j, q')"
  shows "q' = q\<lparr> waiting := waiting q @ [j] \<rparr> \<and> reachable q
       \<and> job_id j = td_type t @ ''-'' @ dateNow e @ ''-'' @ randomSuffix e
       \<and> job_name j = td_type t
       \<and> jd_data (job_data j) = td_data t
       \<and> jd_userId (job_data j) = td_userId t
       \<and> attemptsMade j = 0
       \<and> priority (job_opts j) = 10 - (case td_priority t of None \<Rightarrow> 5 | Some p \<Rightarrow> p)"
  using assms
  by (auto simp: addTaskToQueue_def taskQueue_add_def Let_def split: if_splits)

lemma addTaskToQueue_reachable:
  "reachable q \<Longrightarrow> \<exists>j q'. addTaskToQueue e t q = Inr (j, q')"
  by (simp add: addTaskToQueue_def taskQueue_add_def Let_def)

lemma dispatchOrder_sorted:
  "sorted (map (\<lambda>j. priority (job_opts j)) (dispatchOrder ws))"
  by (simp add: dispatchOrder_def)

lemma dispatchOrder_nth_mono:
  assumes "a \<le> b" and "b < length ws"
  shows "priority (job_opts (dispatchOrder ws ! a)) \<le> priority (job_opts (dispatchOrder ws ! b))"
proof -
  let ?ps = "map (\<lambda>j. priority (job_opts j)) (dispatchOrder ws)"
  have len: "length (dispatchOrder ws) = length ws"
    by (simp add: dispatchOrder_def)
  have "?ps ! a \<le> ?ps ! b"
    using dispatchOrder_sorted assms len by (intro sorted_nth_mono) simp_all
  with assms len show ?thesis by simp
qed

text \<open>
  C1, as stated, fails.  Priority 1 is submitted first, priority 2 second, both before any
  dispatch: the queue is handed 9 and 8, and the job requested with priority 2 is
  dispatched first.
\<close>

theorem C1_counterexample:
  "td_priority taskP1 = Some 1 \<and> td_priority taskP2 = Some 2 \<and>
   map (\<lambda>j. (job_name j, priority (job_opts j)))
     (dispatchOrder (waiting (queueOf queue0
        (addTaskToQueue env0 taskP2 (queueOf queue0 (addTaskToQueue env0 taskP1 queue0))))))
   = [(''report'', 8), (''email'', 9)]"
  by (simp add: taskP1_def taskP2_def queue0_def env0_def queueOf_def addTaskToQueue_def
      taskQueue_add_def dispatchOrder_def Let_def)

text \<open>
  C1, amended.  The producer hands the queue \<^verbatim>\<open>10 - priority\<close>, so a larger requested
  priority is a smaller queue priority: of two jobs created by \<^verbatim>\<open>addTaskToQueue\<close> that
  wait in the queue together, the one requested with the larger priority value is handed
  the smaller number and is dispatched strictly earlier.
\<close>

theorem C1_higher_requested_priority_dispatched_first:
  assumes "addTaskToQueue e1 t1 q1 = Inr (j1, q1')"
    and "addTaskToQueue e2 t2 q2 = Inr (j2, q2')"
    and "(case td_priority t1 of None \<Rightarrow> 5 | Some p \<Rightarrow> p)
           > (case td_priority t2 of None \<Rightarrow> 5 | Some p \<Rightarrow> p)"
    and "a < length ws" and "b < length ws"
    and "dispatchOrder ws ! a = j1" and "dispatchOrder ws ! b = j2"
  shows "priority (job_opts j1) < priority (job_opts j2) \<and> a < b"
proof -
  have lt: "priority (job_opts j1) < priority (job_opts j2)"
    using addTaskToQueue_Inr [OF assms(1)] addTaskToQueue_Inr [OF assms(2)] assms(3)
    by simp
  have "a < b"
  proof (rule ccontr)
    assume "\<not> a < b"
    then have "b \<le> a" by simp
    from dispatchOrder_nth_mono [OF this assms(4)] assms(6,7) lt show False by simp
  qed
  with lt show ?thesis by simp
qed

theorem C1_witness:
  "addTaskToQueue env0 taskP2 \<lparr> waiting = [jobFor ''email'' ''alice'' 9], reachable = True \<rparr>
     = Inr (jobFor ''report'' ''bob'' 8,
            \<lparr> waiting = [jobFor ''email'' ''alice'' 9, jobFor ''report'' ''bob'' 8],
              reachable = True \<rparr>)
   \<and> addTaskToQueue env0 taskP1 queue0
     = Inr (jobFor ''email'' ''alice'' 9,
            \<lparr> waiting = [jobFor ''email'' ''alice'' 9], reachable = True \<rparr>)
   \<and> td_priority taskP2 = Some 2 \<and> td_priority taskP1 = Some 1
   \<and> dispatchOrder [jobFor ''email'' ''alice'' 9, jobFor ''report'' ''bob'' 8] ! 0
       = jobFor ''report'' ''bob'' 8
   \<and> dispatchOrder [jobFor ''email'' ''alice'' 9, jobFor ''report'' ''bob'' 8] ! 1
       = jobFor ''email'' ''alice'' 9
   \<and> priority (job_opts (jobFor ''report'' ''bob'' 8))
       < priority (job_opts (jobFor ''email'' ''alice'' 9))
   \<and> (0::nat) < 1"
proof -
  let ?ws = "[jobFor ''email'' ''alice'' 9, jobFor ''report'' ''bob'' 8]"
  have h1: "addTaskToQueue env0 taskP2
              \<lparr> waiting = [jobFor ''email'' ''alice'' 9], reachable = True \<rparr>
            = Inr (jobFor ''report'' ''bob'' 8, \<lparr> waiting = ?ws, reachable = True \<rparr>)"
    by (simp add: taskP2_def env0_def addTaskToQueue_def taskQueue_add_def Let_def
        defaultJobOptions_def jobFor_def)
  have h2: "addTaskToQueue env0 taskP1 queue0
            = Inr (jobFor ''email'' ''alice'' 9,
                   \<lparr> waiting = [jobFor ''email'' ''alice'' 9], reachable = True \<rparr>)"
    by (simp add: taskP1_def queue0_def env0_def addTaskToQueue_def taskQueue_add_def Let_def
        defaultJobOptions_def jobFor_def)
  have h3: "(case td_priority taskP2 of None \<Rightarrow> 5 | Some p \<Rightarrow> p)
              > (case td_priority taskP1 of None \<Rightarrow> 5 | Some p \<Rightarrow> p)"
    by (simp add: taskP1_def taskP2_def)
  have h4: "0 < length ?ws" and h5: "1 < length ?ws"
    by simp_all
  have h6: "dispatchOrder ?ws ! 0 = jobFor ''report'' ''bob'' 8"
    and h7: "dispatchOrder ?ws ! 1 = jobFor ''email'' ''alice'' 9"
    by (simp_all add: dispatchOrder_def jobFor_def)
  from C1_higher_requested_priority_dispatched_first [OF h1 h2 h3 h4 h5 h6 h7] h1 h2 h6 h7
  show ?thesis
    by (simp add: taskP1_def taskP2_def)
qed

section \<open>Task submission\<close>

lemma elements_scalar [simp]:
  "elements Undefined = [Undefined]" "elements (Str t) = [Str t]" "elements (Num n) = [Num n]"
  "elements (Arr vs) = vs"
  by (simp_all add: elements_def)

lemma bodyOf_type_ok:
  "(concat (map (\<lambda>v. if isIn e taskTypes v then [] else [''Invalid task type''])
              (elements (b_type (bodyOf r)))) = [])
   = (body_type r \<in> {Some ''email'', Some ''report'', Some ''dataProcessing'',
                       Some ''imageProcessing''})"
  by (cases "body_type r")
     (simp_all add: bodyOf_def isIn_def validatorText_def taskTypes_def)

lemma bodyOf_priority_ok:
  "((if b_priority (bodyOf r) = Undefined then []
     else concat (map (\<lambda>v. if isInt e 1 10 v then []
                            else [''Priority must be between 1 and 10''])
                    (elements (b_priority (bodyOf r))))) = [])
   = (case body_priority r of None \<Rightarrow> True | Some p \<Rightarrow> 1 \<le> p \<and> p \<le> 10)"
  by (cases "body_priority r") (simp_all add: bodyOf_def isInt_def)

lemma bodyOf_data_ok:
  "((case b_data (bodyOf r) of Obj fs \<Rightarrow> [] | _ \<Rightarrow> [''Data must be an object'']) = [])
   = (case body_data r of Obj fs \<Rightarrow> True | _ \<Rightarrow> False)"
  by (cases "body_data r") (simp_all add: bodyOf_def)

lemma validateTask_nil: "(validateTask e (bodyOf r) = []) = admissible r"
  unfolding validateTask_def admissible_def append_is_Nil_conv
    bodyOf_type_ok bodyOf_data_ok bodyOf_priority_ok
  by (rule refl)

text \<open>
  Arrays are checked element by element: an empty array passes as type and as priority,
  and so does an array of accepted elements.
\<close>

lemma validateTask_arrays:
  "validateTask e \<lparr> b_type = Arr [], b_data = Obj fs, b_priority = Arr [], b_userId = u \<rparr> = []"
  "validateTask e \<lparr> b_type = Arr [Str ''email''], b_data = Obj fs,
                     b_priority = Arr [Num 3, Num 4], b_userId = u \<rparr> = []"
  "validateTask e \<lparr> b_type = Str ''email'', b_data = Obj fs,
                     b_priority = Str ''07'', b_userId = u \<rparr> = []"
  by (simp_all add: validateTask_def taskTypes_def isIn_def isInt_def validatorText_def
      intText_def decimalDigits_def)

text \<open>
  C6, as stated, fails.  A request with the non-empty type \<^verbatim>\<open>video\<close>, an object as data
  and priority 5 is answered with a validation error, and the queue stays as it was.
\<close>

theorem C6_counterexample:
  "body_type (requestFor ''video'' 5 None) = Some ''video'' \<and>
   body_priority (requestFor ''video'' 5 None) = Some 5 \<and>
   postTask env0 (requestFor ''video'' 5 None) queue0
     = (BadRequest [''Invalid task type''], queue0)"
  by (simp add: requestFor_def postTask_def validateTask_def bodyOf_def taskTypes_def
      isIn_def isInt_def validatorText_def)

text \<open>
  C6, amended.  For every submission whose type is a text or missing and whose priority
  is an integer number or missing: the submission fails with a validation error, and the
  job does not reach the queue, if and only if the type is not one of \<^verbatim>\<open>email\<close>,
  \<^verbatim>\<open>report\<close>, \<^verbatim>\<open>dataProcessing\<close>, \<^verbatim>\<open>imageProcessing\<close>, or the data is not an object, or
  a priority is given that is outside 1 to 10.  Every other such submission, when the
  queue store can be reached, appends one job to the queue (with the type as its name, the
  data, the user or \<^verbatim>\<open>anonymous\<close>, and 10 minus the priority) and answers with the id,
  the type, the status \<^verbatim>\<open>queued\<close> and the priority of the task.
\<close>

theorem C6_validation_and_admission:
  "((\<exists>errs. fst (postTask e r q) = BadRequest errs) \<longleftrightarrow> \<not> admissible r)
   \<and> (\<not> admissible r \<longrightarrow> snd (postTask e r q) = q)
   \<and> (admissible r \<and> reachable q \<longrightarrow>
        (\<exists>j. postTask e r q =
               (Created \<lparr> tv_id = job_id j, tv_type = job_name j, tv_status = ''queued'',
                          tv_priority = (case body_priority r of None \<Rightarrow> 5 | Some p \<Rightarrow> p),
                          tv_queuedAt = isoNow e \<rparr>,
                q\<lparr> waiting := waiting q @ [j] \<rparr>)
             \<and> body_type r = Some (job_name j)
             \<and> jd_data (job_data j) = body_data r
             \<and> jd_userId (job_data j) = Some (orElse (body_userId r) ''anonymous'')
             \<and> priority (job_opts j)
                 = 10 - (case body_priority r of None \<Rightarrow> 5 | Some p \<Rightarrow> p)))"
proof (intro conjI impI)
  show "(\<exists>errs. fst (postTask e r q) = BadRequest errs) \<longleftrightarrow> \<not> admissible r"
    by (auto simp: postTask_def Let_def validateTask_nil split: sum.splits)
next
  assume "\<not> admissible r"
  then show "snd (postTask e r q) = q"
    by (simp add: postTask_def validateTask_nil)
next
  assume adm: "admissible r \<and> reachable q"
  then have v: "validateTask e (bodyOf r) = []"
    by (simp add: validateTask_nil)
  from adm obtain t where t: "body_type r = Some t"
    by (auto simp: admissible_def)
  let ?td = "\<lparr> td_type = t, td_data = body_data r,
               td_priority = Some (case body_priority r of None \<Rightarrow> 5 | Some p \<Rightarrow> p),
               td_userId = Some (orElse (body_userId r) ''anonymous'') \<rparr>"
  from adm addTaskToQueue_reachable
  obtain j q' where add: "addTaskToQueue e ?td q = Inr (j, q')"
    by blast
  from addTaskToQueue_Inr [OF add] v t add
  show "\<exists>j. postTask e r q =
               (Created \<lparr> tv_id = job_id j, tv_type = job_name j, tv_status = ''queued'',
                          tv_priority = (case body_priority r of None \<Rightarrow> 5 | Some p \<Rightarrow> p),
                          tv_queuedAt = isoNow e \<rparr>,
                q\<lparr> waiting := waiting q @ [j] \<rparr>)
             \<and> body_type r = Some (job_name j)
             \<and> jd_data (job_data j) = body_data r
             \<and> jd_userId (job_data j) = Some (orElse (body_userId r) ''anonymous'')
             \<and> priority (job_opts j)
                 = 10 - (case body_priority r of None \<Rightarrow> 5 | Some p \<Rightarrow> p)"
    by (intro exI [of _ j]) (simp add: postTask_def Let_def)
qed

text \<open>The amended C6 at an email request with priority 5 and at the \<^verbatim>\<open>video\<close> request.\<close>

theorem C6_witness:
  "admissible (requestFor ''email'' 5 (Some ''tester'')) \<and> reachable queue0
   \<and> postTask env0 (requestFor ''email'' 5 (Some ''tester'')) queue0
       = (Created \<lparr> tv_id = ''email-1700000000000-k3j9x0q1z'', tv_type = ''email'',
                    tv_status = ''queued'', tv_priority = 5,
                    tv_queuedAt = ''2023-11-14T22:13:20.000Z'' \<rparr>,
          \<lparr> waiting = [jobFor ''email'' ''tester'' 5], reachable = True \<rparr>)
   \<and> \<not> admissible (requestFor ''video'' 5 None)
   \<and> (\<exists>errs. fst (postTask env0 (requestFor ''video'' 5 None) queue0) = BadRequest errs)
   \<and> snd (postTask env0 (requestFor ''video'' 5 None) queue0) = queue0"
proof -
  have a: "admissible (requestFor ''email'' 5 (Some ''tester''))"
    and b: "\<not> admissible (requestFor ''video'' 5 None)"
    and c: "reachable queue0"
    by (simp_all add: admissible_def requestFor_def queue0_def)
  have d: "postTask env0 (requestFor ''email'' 5 (Some ''tester'')) queue0
       = (Created \<lparr> tv_id = ''email-1700000000000-k3j9x0q1z'', tv_type = ''email'',
                    tv_status = ''queued'', tv_priority = 5,
                    tv_queuedAt = ''2023-11-14T22:13:20.000Z'' \<rparr>,
          \<lparr> waiting = [jobFor ''email'' ''tester'' 5], reachable = True \<rparr>)"
    by (simp add: requestFor_def postTask_def validateTask_def bodyOf_def taskTypes_def
        isIn_def isInt_def validatorText_def orElse_def
        addTaskToQueue_def taskQueue_add_def Let_def defaultJobOptions_def jobFor_def
        env0_def queue0_def)
  from C6_validation_and_admission [of env0 "requestFor ''video'' 5 None" queue0] a b c d
  show ?thesis
    by simp
qed

section \<open>Retry backoff\<close>




section \<open>Progress reports of the task processors\<close>

lemma reports_refl: "reports st st []"
  by (simp add: reports_def)

lemma reports_trans: "reports st st' ps \<Longrightarrow> reports st' st'' qs \<Longrightarrow> reports st st'' (ps @ qs)"
  by (simp add: reports_def)

lemma updateProgress_reports:
  assumes "updateProgress st p = Inr st'"
  shows "reports st st' [p]" and "progress st' = p"
  using assms
  by (auto simp: updateProgress_def reports_def split: option.splits nat.splits)

lemma reportProgress_reports:
  "reportProgress st i = (st', r) \<Longrightarrow>
     \<exists>ps. reports st st' ps \<and> sorted ps \<and> (\<forall>p \<in> set ps. i \<le> p \<and> p \<le> 80)"
proof (induction st i arbitrary: st' r rule: reportProgress.induct)
  case (1 st i)
  show ?case
  proof (cases "i \<le> 80")
    case False
    with "1.prems" have "st' = st"
      by (simp add: reportProgress.simps)
    then show ?thesis
      using reports_refl by (intro exI [of _ "[]"]) simp
  next
    case True
    show ?thesis
    proof (cases "updateProgress st i")
      case (Inl err)
      with True "1.prems" have "st' = st"
        by (simp add: reportProgress.simps)
      then show ?thesis
        using reports_refl by (intro exI [of _ "[]"]) simp
    next
      case (Inr st1)
      with True "1.prems" have run: "reportProgress st1 (i + 20) = (st', r)"
        by (simp add: reportProgress.simps)
      from "1.IH" [OF True Inr run] obtain qs where
        qs: "reports st1 st' qs" "sorted qs" "\<forall>p \<in> set qs. i + 20 \<le> p \<and> p \<le> 80"
        by blast
      from reports_trans [OF updateProgress_reports(1) [OF Inr] qs(1)]
      have "reports st st' (i # qs)" by simp
      moreover have "sorted (i # qs)"
        using qs(2,3) by auto
      moreover have "\<forall>p \<in> set (i # qs). i \<le> p \<and> p \<le> 80"
        using qs(3) True by auto
      ultimately show ?thesis by blast
    qed
  qed
qed

lemma recordProgress_mono:
  "min ((i * 80) div n + 10) 90 \<le> min (((i + 10) * 80) div n + 10) (90::nat)"
proof -
  have "(i * 80) div n \<le> ((i + 10) * 80) div n"
    by (rule div_le_mono) simp
  then show ?thesis by simp
qed

lemma processRecords_reports:
  "processRecords st n i = (st', r) \<Longrightarrow>
     \<exists>ps. reports st st' ps \<and> sorted ps \<and>
          (\<forall>p \<in> set ps. min ((i * 80) div n + 10) 90 \<le> p \<and> p \<le> 90)"
proof (induction st n i arbitrary: st' r rule: processRecords.induct)
  case (1 st n i)
  show ?case
  proof (cases "i < n")
    case False
    with "1.prems" have "st' = st"
      by (simp add: processRecords.simps)
    then show ?thesis
      using reports_refl by (intro exI [of _ "[]"]) simp
  next
    case True
    let ?p = "min ((i * 80) div n + 10) 90"
    show ?thesis
    proof (cases "updateProgress st ?p")
      case (Inl err)
      with True "1.prems" have "st' = st"
        by (simp add: processRecords.simps)
      then show ?thesis
        using reports_refl by (intro exI [of _ "[]"]) simp
    next
      case (Inr st1)
      with True "1.prems" have run: "processRecords st1 n (i + 10) = (st', r)"
        by (simp add: processRecords.simps)
      from "1.IH" [OF True Inr run] obtain qs where
        qs: "reports st1 st' qs" "sorted qs"
          "\<forall>p \<in> set qs. min (((i + 10) * 80) div n + 10) 90 \<le> p \<and> p \<le> 90"
        by blast
      have low: "\<forall>p \<in> set qs. ?p \<le> p"
        using qs(3) recordProgress_mono [of i n] by (meson order_trans)
      from reports_trans [OF updateProgress_reports(1) [OF Inr] qs(1)]
      have "reports st st' (?p # qs)" by simp
      moreover have "sorted (?p # qs)"
        using qs(2) low by simp
      moreover have "\<forall>p \<in> set (?p # qs). ?p \<le> p \<and> p \<le> 90"
        using qs(3) low by simp
      ultimately show ?thesis by blast
    qed
  qed
qed

lemma operationProgress_mono:
  "((i + 1) * 80) div n + 10 \<le> ((i + 1 + 1) * 80) div n + (10::nat)"
proof -
  have "((i + 1) * 80) div n \<le> ((i + 1 + 1) * 80) div n"
    by (rule div_le_mono) simp
  then show ?thesis by simp
qed

lemma operationProgress_le:
  assumes "i < (n::nat)"
  shows "((i + 1) * 80) div n + 10 \<le> 90"
proof -
  have "((i + 1) * 80) div n \<le> (n * 80) div n"
    using assms by (intro div_le_mono) simp
  also have "\<dots> = 80" using assms by simp
  finally show ?thesis by simp
qed

lemma applyOperations_reports:
  "applyOperations st ops i = (st', r) \<Longrightarrow>
     \<exists>ps. reports st st' ps \<and> sorted ps \<and>
          (\<forall>p \<in> set ps. ((i + 1) * 80) div length ops + 10 \<le> p \<and> p \<le> 90)"
proof (induction st ops i arbitrary: st' r rule: applyOperations.induct)
  case (1 st ops i)
  show ?case
  proof (cases "i < length ops")
    case False
    with "1.prems" have "st' = st"
      by (simp add: applyOperations.simps)
    then show ?thesis
      using reports_refl by (intro exI [of _ "[]"]) simp
  next
    case True
    let ?p = "((i + 1) * 80) div length ops + 10"
    show ?thesis
    proof (cases "updateProgress st ?p")
      case (Inl err)
      with True "1.prems" have "st' = st"
        by (simp add: applyOperations.simps)
      then show ?thesis
        using reports_refl by (intro exI [of _ "[]"]) simp
    next
      case (Inr st1)
      with True "1.prems" have run: "applyOperations st1 ops (i + 1) = (st', r)"
        by (simp add: applyOperations.simps)
      from "1.IH" [OF True Inr run] obtain qs where
        qs: "reports st1 st' qs" "sorted qs"
          "\<forall>p \<in> set qs. ((i + 1 + 1) * 80) div length ops + 10 \<le> p \<and> p \<le> 90"
        by blast
      have low: "\<forall>p \<in> set qs. ?p \<le> p"
        using qs(3) operationProgress_mono [of i "length ops"] by (meson order_trans)
      from reports_trans [OF updateProgress_reports(1) [OF Inr] qs(1)]
      have "reports st st' (?p # qs)" by simp
      moreover have "sorted (?p # qs)"
        using qs(2) low by simp
      moreover have "\<forall>p \<in> set (?p # qs). ?p \<le> p \<and> p \<le> 90"
        using qs(3) low operationProgress_le [OF True] by simp
      ultimately show ?thesis by blast
    qed
  qed
qed

section \<open>Runs of the worker's processor\<close>

lemma publishTaskEvent_simps:
  "progressLog (publishTaskEvent st c d) = progressLog st"
  "pubReachable (publishTaskEvent st c d) = pubReachable st"
  "progress (publishTaskEvent st c d) = progress st"
  "writesLeft (publishTaskEvent st c d) = writesLeft st"
  "published (publishTaskEvent st c d) =
     published st @ (if pubReachable st then [(c, JSON_stringify d)] else [])"
  by (simp_all add: publishTaskEvent_def)

lemma processEmailTask_reports:
  "processEmailTask e st j = (st', r) \<Longrightarrow>
     \<exists>ps. reports st st' ps \<and> sorted ps \<and> (\<forall>p \<in> set ps. 10 \<le> p \<and> p \<le> 90)"
  using reports_refl by (intro exI [of _ "[]"]) (auto simp: processEmailTask_def Let_def)

lemma processGenericTask_reports:
  "processGenericTask e st j = (st', r) \<Longrightarrow>
     \<exists>ps. reports st st' ps \<and> sorted ps \<and> (\<forall>p \<in> set ps. 10 \<le> p \<and> p \<le> 90)"
  using reports_refl by (intro exI [of _ "[]"]) (auto simp: processGenericTask_def)

lemma processReportTask_reports:
  assumes "processReportTask e st j = (st', r)"
  shows "\<exists>ps. reports st st' ps \<and> sorted ps \<and> (\<forall>p \<in> set ps. 10 \<le> p \<and> p \<le> 90)"
proof -
  obtain st1 r1 where run: "reportProgress st 20 = (st1, r1)"
    by (cases "reportProgress st 20")
  with assms have "st' = st1"
    by (auto simp: processReportTask_def Let_def split: option.splits)
  with reportProgress_reports [OF run] show ?thesis
    by fastforce
qed

lemma processDataProcessingTask_reports:
  assumes "processDataProcessingTask e st j = (st', r)"
  shows "\<exists>ps. reports st st' ps \<and> sorted ps \<and> (\<forall>p \<in> set ps. 10 \<le> p \<and> p \<le> 90)"
proof -
  let ?n = "orCount (jd_recordCount (job_data j)) 100"
  obtain st1 r1 where run: "processRecords st ?n 0 = (st1, r1)"
    by (cases "processRecords st ?n 0")
  with assms have "st' = st1"
    by (auto simp: processDataProcessingTask_def Let_def split: option.splits)
  with processRecords_reports [OF run] show ?thesis
    by fastforce
qed

lemma processImageProcessingTask_reports:
  assumes "processImageProcessingTask e st j = (st', r)"
  shows "\<exists>ps. reports st st' ps \<and> sorted ps \<and> (\<forall>p \<in> set ps. 10 \<le> p \<and> p \<le> 90)"
proof -
  let ?ops = "case jd_operations (job_data j) of
                None \<Rightarrow> [''resize'', ''compress'', ''watermark''] | Some ops \<Rightarrow> ops"
  obtain st1 r1 where run: "applyOperations st ?ops 0 = (st1, r1)"
    by (cases "applyOperations st ?ops 0")
  with assms have "st' = st1"
    by (auto simp: processImageProcessingTask_def Let_def split: option.splits)
  with applyOperations_reports [OF run] show ?thesis
    by fastforce
qed

lemma processTask_reports:
  assumes "processTask e st j = (st', r)"
  shows "\<exists>ps. reports st st' ps \<and> sorted ps \<and> (\<forall>p \<in> set ps. 10 \<le> p \<and> p \<le> 90)"
proof -
  let ?h = "if job_name j = ''email'' then processEmailTask e st j
            else if job_name j = ''report'' then processReportTask e st j
            else if job_name j = ''dataProcessing'' then processDataProcessingTask e st j
            else if job_name j = ''imageProcessing'' then processImageProcessingTask e st j
            else processGenericTask e st j"
  obtain st1 r1 where h: "?h = (st1, r1)"
    by (cases ?h)
  with assms have eq: "st' = st1"
    by (auto simp: processTask_def Let_def split: sum.splits)
  from h have "\<exists>ps. reports st st1 ps \<and> sorted ps \<and> (\<forall>p \<in> set ps. 10 \<le> p \<and> p \<le> 90)"
    using processEmailTask_reports processReportTask_reports
      processDataProcessingTask_reports processImageProcessingTask_reports
      processGenericTask_reports
    by (auto split: if_splits)
  with eq show ?thesis by simp
qed

text \<open>
  The shape of every run of the processor: what it reports, what it publishes, and what
  it leaves as the stored progress.
\<close>

lemma worker_run:
  assumes "worker e wn st j = (st', r)"
  shows "\<exists>ps evs. progressLog st' = progressLog st @ ps
           \<and> published st' = published st @ (if pubReachable st then evs else [])
           \<and> pubReachable st' = pubReachable st
           \<and> progress st' = (if ps = [] then progress st else last ps)
           \<and> (\<forall>result. r = Inr result \<longrightarrow> ps \<noteq> [] \<and> last ps = 100)
           \<and> sorted ps \<and> (\<forall>p \<in> set ps. 10 \<le> p \<and> p \<le> 100) \<and> (ps \<noteq> [] \<longrightarrow> hd ps = 10)
           \<and> (case r of
                 Inr result \<Rightarrow>
                   evs = [(''task:completed'', JSON_stringify (completedEvent e wn j result))]
               | Inl err \<Rightarrow>
                   evs = [(''task:failed'', JSON_stringify (failedEvent e wn j err))]
                   \<or> (\<exists>result. evs =
                         [(''task:completed'', JSON_stringify (completedEvent e wn j result)),
                          (''task:failed'', JSON_stringify (failedEvent e wn j err))]))"
proof (cases "updateProgress st 10")
  case (Inl err)
  with assms have "st' = publishTaskEvent st ''task:failed'' (failedEvent e wn j err)" "r = Inl err"
    by (auto simp: worker_def workerCatch_def)
  then show ?thesis
    by (intro exI [of _ "[]"] exI [of _ "[(''task:failed'', JSON_stringify (failedEvent e wn j err))]"])
       (simp add: publishTaskEvent_simps)
next
  case (Inr st1)
  note r1 = updateProgress_reports(1) [OF Inr]
  obtain st2 r2 where pt: "processTask e st1 j = (st2, r2)"
    by (cases "processTask e st1 j")
  from processTask_reports [OF pt] obtain qs where
    qs: "reports st1 st2 qs" "sorted qs" "\<forall>p \<in> set qs. 10 \<le> p \<and> p \<le> 90"
    by blast
  have r2': "reports st st2 (10 # qs)"
    using reports_trans [OF r1 qs(1)] by simp
  have s2: "sorted (10 # qs)" using qs by simp
  show ?thesis
  proof (cases r2)
    case (Inl err)
    with assms Inr pt
    have "st' = publishTaskEvent st2 ''task:failed'' (failedEvent e wn j err)" "r = Inl err"
      by (auto simp: worker_def workerCatch_def)
    with r2' s2 qs(3) show ?thesis
      by (intro exI [of _ "10 # qs"]
            exI [of _ "[(''task:failed'', JSON_stringify (failedEvent e wn j err))]"])
         (auto simp: publishTaskEvent_simps reports_def)
  next
    case result: (Inr result)
    show ?thesis
    proof (cases "updateProgress st2 90")
      case (Inl err)
      with assms Inr pt result
      have "st' = publishTaskEvent st2 ''task:failed'' (failedEvent e wn j err)" "r = Inl err"
        by (auto simp: worker_def workerCatch_def)
      with r2' s2 qs(3) show ?thesis
        by (intro exI [of _ "10 # qs"]
              exI [of _ "[(''task:failed'', JSON_stringify (failedEvent e wn j err))]"])
           (auto simp: publishTaskEvent_simps reports_def)
    next
      case st3: (Inr st3)
      have r3: "reports st st3 (10 # qs @ [90])"
        using reports_trans [OF r2' updateProgress_reports(1) [OF st3]] by simp
      have s3: "sorted (10 # qs @ [90])"
        using qs by (auto simp: sorted_append)
      let ?st4 = "publishTaskEvent st3 ''task:completed'' (completedEvent e wn j result)"
      show ?thesis
      proof (cases "updateProgress ?st4 100")
        case (Inl err)
        with assms Inr pt result st3
        have "st' = publishTaskEvent ?st4 ''task:failed'' (failedEvent e wn j err)" "r = Inl err"
          by (auto simp: worker_def workerCatch_def Let_def)
        with r3 s3 qs(3) show ?thesis
          by (intro exI [of _ "10 # qs @ [90]"]
                exI [of _ "[(''task:completed'', JSON_stringify (completedEvent e wn j result)),
                            (''task:failed'', JSON_stringify (failedEvent e wn j err))]"])
             (auto simp: publishTaskEvent_simps reports_def)
      next
        case st5: (Inr st5)
        with assms Inr pt result st3 have eq: "st' = st5" "r = Inr result"
          by (auto simp: worker_def Let_def)
        from updateProgress_reports(1) [OF st5]
        have "reports ?st4 st5 [100]" .
        with r3 eq have
          "progressLog st' = progressLog st @ (10 # qs @ [90, 100])"
          "progress st' = 100"
          "published st' = published st @
              (if pubReachable st
               then [(''task:completed'', JSON_stringify (completedEvent e wn j result))] else [])"
          "pubReachable st' = pubReachable st"
          by (auto simp: publishTaskEvent_simps reports_def)
        moreover have "sorted (10 # qs @ [90, 100])"
          using qs by (auto simp: sorted_append)
        ultimately show ?thesis
          using qs(3) eq
          by (intro exI [of _ "10 # qs @ [90, 100]"]
                exI [of _ "[(''task:completed'', JSON_stringify (completedEvent e wn j result))]"])
             auto
      qed
    qed
  qed
qed

section \<open>Outcome of an attempt\<close>

lemma firstAttempt_eq:
  "firstAttempt =
     (\<lparr> progress = 40, progressLog = [10, 20, 40],
        published = [(''task:failed'',
           Json (Obj [(''jobId'', Str ''report-1700000000000-k3j9x0q1z''),
                      (''taskType'', Str ''report''),
                      (''userId'', Str ''alice''),
                      (''error'', Str ''Task processing failed: Missing key for job''),
                      (''attemptsMade'', Num 1),
                      (''failedAt'', Str ''2023-11-14T22:13:20.000Z''),
                      (''workerName'', Str ''worker-1'')]))],
        writesLeft = Some 0, pubReachable = True \<rparr>,
      Inl (Error ''Task processing failed: Missing key for job''))"
  by (simp add: firstAttempt_def worker_def workerCatch_def updateProgress_def store0_def
      processTask_def processReportTask_def reportProgress.simps jobFor_def Let_def
      publishTaskEvent_def failedEvent_def JSON_stringify_def optStr_def env0_def)

lemma secondAttempt_log:
  "progressLog (fst secondAttempt) = [10, 20, 40, 10, 20, 40, 60, 80, 90, 100]"
  by (simp add: secondAttempt_def firstAttempt_eq worker_def workerCatch_def updateProgress_def
      processTask_def processReportTask_def reportProgress.simps jobFor_def Let_def
      publishTaskEvent_def)

lemma attemptProgress_append:
  "progressLog st' = progressLog st @ ps \<Longrightarrow> attemptProgress st st' = ps"
  by (simp add: attemptProgress_def)

lemma attemptPublished_append:
  "published st' = published st @ evs \<Longrightarrow> attemptPublished st st' = evs"
  by (simp add: attemptPublished_def)

lemma processTask_generic:
  assumes "job_name j \<notin> {''email'', ''report'', ''dataProcessing'', ''imageProcessing''}"
  shows "processTask e st j =
      (st, Inr (Obj [(''status'', Str ''completed''),
                     (''taskType'', Str (job_name j)),
                     (''message'', Str (''Task '' @ job_name j @ '' completed successfully'')),
                     (''processedAt'', Str (isoNow e)),
                     (''jobId'', Str (job_id j)),
                     (''processingStarted'',
                        Str (case processedOn j of None \<Rightarrow> isoNow e | Some t \<Rightarrow> t)),
                     (''processingCompleted'', Str (isoNow e))]))"
  using assms by (simp add: processTask_def processGenericTask_def Let_def)

text \<open>
  C2, as stated, fails.  A job of the type \<^verbatim>\<open>video\<close>, for which \<^verbatim>\<open>processTask\<close> has no
  case, is processed by the \<^verbatim>\<open>default:\<close> branch: the processor returns a result with the
  status \<^verbatim>\<open>completed\<close> and publishes \<^verbatim>\<open>task:completed\<close>; nothing marks the job failed.
\<close>

theorem C2_counterexample:
  "job_name (jobFor ''video'' ''alice'' 5)
     \<notin> {''email'', ''report'', ''dataProcessing'', ''imageProcessing''}
   \<and> snd (worker env0 ''worker-1'' store0 (jobFor ''video'' ''alice'' 5))
     = Inr (Obj [(''status'', Str ''completed''),
                 (''taskType'', Str ''video''),
                 (''message'', Str ''Task video completed successfully''),
                 (''processedAt'', Str ''2023-11-14T22:13:20.000Z''),
                 (''jobId'', Str ''video-1700000000000-k3j9x0q1z''),
                 (''processingStarted'', Str ''2023-11-14T22:13:20.000Z''),
                 (''processingCompleted'', Str ''2023-11-14T22:13:20.000Z'')])
   \<and> map fst (published (fst (worker env0 ''worker-1'' store0 (jobFor ''video'' ''alice'' 5))))
     = [''task:completed'']"
  by (simp add: worker_def workerCatch_def updateProgress_def store0_def
      processTask_def processGenericTask_def jobFor_def Let_def
      publishTaskEvent_def env0_def)

text \<open>
  C2, amended.  For every job whose type is none of \<^verbatim>\<open>email\<close>, \<^verbatim>\<open>report\<close>,
  \<^verbatim>\<open>dataProcessing\<close>, \<^verbatim>\<open>imageProcessing\<close>, \<^verbatim>\<open>processTask\<close> runs the generic branch: it
  throws nothing, reports no progress of its own and returns a result with the status
  \<^verbatim>\<open>completed\<close> and the message \<^verbatim>\<open>Task <type> completed successfully\<close>.  When the
  progress writes and the publish succeed, the processor reports 10, 90, 100, publishes
  \<^verbatim>\<open>task:completed\<close> with that result and returns it: the job is neither dropped nor
  failed.
\<close>

theorem C2_unregistered_type_completes:
  assumes "job_name j \<notin> {''email'', ''report'', ''dataProcessing'', ''imageProcessing''}"
  shows "(\<exists>result. processTask e st j = (st, Inr result)
            \<and> field result ''status'' = Str ''completed''
            \<and> field result ''message''
                = Str (''Task '' @ job_name j @ '' completed successfully'')
            \<and> (writesLeft st = None \<and> pubReachable st \<longrightarrow>
                 snd (worker e wn st j) = Inr result
                 \<and> attemptProgress st (fst (worker e wn st j)) = [10, 90, 100]
                 \<and> attemptPublished st (fst (worker e wn st j))
                     = [(''task:completed'', JSON_stringify (completedEvent e wn j result))]))"
proof -
  let ?result = "Obj [(''status'', Str ''completed''),
                     (''taskType'', Str (job_name j)),
                     (''message'', Str (''Task '' @ job_name j @ '' completed successfully'')),
                     (''processedAt'', Str (isoNow e)),
                     (''jobId'', Str (job_id j)),
                     (''processingStarted'',
                        Str (case processedOn j of None \<Rightarrow> isoNow e | Some t \<Rightarrow> t)),
                     (''processingCompleted'', Str (isoNow e))]"
  have pt: "\<And>s. processTask e s j = (s, Inr ?result)"
    using processTask_generic [OF assms] by simp
  have "writesLeft st = None \<and> pubReachable st \<longrightarrow>
          snd (worker e wn st j) = Inr ?result
          \<and> attemptProgress st (fst (worker e wn st j)) = [10, 90, 100]
          \<and> attemptPublished st (fst (worker e wn st j))
              = [(''task:completed'', JSON_stringify (completedEvent e wn j ?result))]"
    by (simp add: worker_def pt updateProgress_def publishTaskEvent_def Let_def
        attemptProgress_def attemptPublished_def)
  then show ?thesis
    using pt [of st] by (intro exI [of _ ?result]) simp
qed

text \<open>The amended C2 at the job of type \<^verbatim>\<open>video\<close>.\<close>

theorem C2_witness:
  "job_name (jobFor ''video'' ''alice'' 5)
     \<notin> {''email'', ''report'', ''dataProcessing'', ''imageProcessing''}
   \<and> writesLeft store0 = None \<and> pubReachable store0
   \<and> (\<exists>result. processTask env0 store0 (jobFor ''video'' ''alice'' 5) = (store0, Inr result)
         \<and> field result ''status'' = Str ''completed''
         \<and> snd (worker env0 ''worker-1'' store0 (jobFor ''video'' ''alice'' 5)) = Inr result
         \<and> attemptProgress store0
             (fst (worker env0 ''worker-1'' store0 (jobFor ''video'' ''alice'' 5)))
             = [10, 90, 100])"
proof -
  have a: "job_name (jobFor ''video'' ''alice'' 5)
     \<notin> {''email'', ''report'', ''dataProcessing'', ''imageProcessing''}"
    by (simp add: jobFor_def)
  have b: "writesLeft store0 = None \<and> pubReachable store0"
    by (simp add: store0_def)
  from C2_unregistered_type_completes [OF a, of env0 store0 "''worker-1''"] a b
  show ?thesis by auto
qed

text \<open>
  C3, as stated, fails.  The first attempt (of three) at a report job throws, so retry
  attempts remain, and \<^verbatim>\<open>task:failed\<close> is published all the same.
\<close>

theorem C3_counterexample:
  "attemptsRemain (jobFor ''report'' ''alice'' 5)
   \<and> snd firstAttempt = Inl (Error ''Task processing failed: Missing key for job'')
   \<and> map fst (published (fst firstAttempt)) = [''task:failed'']"
  by (simp add: firstAttempt_eq) (simp add: attemptsRemain_def jobFor_def)

text \<open>
  C3, amended.  For every run of the processor on a job, with a pub/sub connection that
  accepts the publish: if the run throws, the last message it publishes is
  \<^verbatim>\<open>task:failed\<close> with the error and \<^verbatim>\<open>attemptsMade = job.attemptsMade + 1\<close>, whether
  or not retry attempts remain; if it returns, it publishes \<^verbatim>\<open>task:completed\<close> and
  nothing else.  So \<^verbatim>\<open>task:failed\<close> is published if and only if the attempt throws.
\<close>

theorem C3_failed_event_for_every_handler_error:
  assumes "worker e wn st j = (st', r)" and "pubReachable st"
  shows "case r of
           Inl err \<Rightarrow>
             attemptPublished st st' \<noteq> []
             \<and> last (attemptPublished st st')
                 = (''task:failed'', JSON_stringify (failedEvent e wn j err))
             \<and> field (failedEvent e wn j err) ''attemptsMade'' = Num (int (attemptsMade j) + 1)
         | Inr result \<Rightarrow>
             attemptPublished st st'
               = [(''task:completed'', JSON_stringify (completedEvent e wn j result))]"
proof -
  from worker_run [OF assms(1)] assms(2) obtain ps evs where
    pub: "published st' = published st @ evs"
    and evs: "case r of
                 Inr result \<Rightarrow>
                   evs = [(''task:completed'', JSON_stringify (completedEvent e wn j result))]
               | Inl err \<Rightarrow>
                   evs = [(''task:failed'', JSON_stringify (failedEvent e wn j err))]
                   \<or> (\<exists>result. evs =
                         [(''task:completed'', JSON_stringify (completedEvent e wn j result)),
                          (''task:failed'', JSON_stringify (failedEvent e wn j err))])"
    by auto
  have att: "\<And>err. field (failedEvent e wn j err) ''attemptsMade'' = Num (int (attemptsMade j) + 1)"
    by (simp add: failedEvent_def)
  from evs att show ?thesis
    unfolding attemptPublished_append [OF pub]
    by (cases r) auto
qed

text \<open>The amended C3 at the first attempt, where retry attempts remain.\<close>

theorem C3_witness:
  "worker env0 ''worker-1'' (store0\<lparr> writesLeft := Some 3 \<rparr>) (jobFor ''report'' ''alice'' 5)
     = (fst firstAttempt, Inl (Error ''Task processing failed: Missing key for job''))
   \<and> pubReachable (store0\<lparr> writesLeft := Some 3 \<rparr>)
   \<and> attemptsRemain (jobFor ''report'' ''alice'' 5)
   \<and> last (attemptPublished (store0\<lparr> writesLeft := Some 3 \<rparr>) (fst firstAttempt))
       = (''task:failed'',
          JSON_stringify (failedEvent env0 ''worker-1'' (jobFor ''report'' ''alice'' 5)
            (Error ''Task processing failed: Missing key for job'')))"
proof -
  have a: "worker env0 ''worker-1'' (store0\<lparr> writesLeft := Some 3 \<rparr>)
             (jobFor ''report'' ''alice'' 5)
           = (fst firstAttempt, Inl (Error ''Task processing failed: Missing key for job''))"
    unfolding firstAttempt_def [symmetric] by (simp add: firstAttempt_eq)
  have b: "pubReachable (store0\<lparr> writesLeft := Some 3 \<rparr>)"
    by (simp add: store0_def)
  have c: "attemptsRemain (jobFor ''report'' ''alice'' 5)"
    by (simp add: attemptsRemain_def jobFor_def)
  from C3_failed_event_for_every_handler_error [OF a b] a b c
  show ?thesis by simp
qed

text \<open>
  C9, as stated, fails in its second half.  The first attempt stops after the reports
  10, 20, 40 and leaves 40 as the stored progress; the second attempt starts from there
  and its first report is 10: the progress is never reset to 0.
\<close>

theorem C9_counterexample:
  "snd firstAttempt = Inl (Error ''Task processing failed: Missing key for job'')
   \<and> progress (fst firstAttempt) = 40
   \<and> attemptProgress (fst firstAttempt) (fst secondAttempt) = [10, 20, 40, 60, 80, 90, 100]
   \<and> progressLog (fst secondAttempt) = [10, 20, 40, 10, 20, 40, 60, 80, 90, 100]"
  by (simp add: secondAttempt_log attemptProgress_def) (simp add: firstAttempt_eq)

text \<open>
  C9, amended.  For every run of the processor on a job, the progress values reported
  during the run are non-decreasing and lie between 10 and 100 (so within 0 to 100); the
  first of them is 10 and, when the run returns, the last is 100.  The stored progress is
  the last value reported, and it stays what it was when the run reports nothing: the
  processor never writes 0, a new attempt overwrites the progress of the previous one
  with 10.
\<close>

theorem C9_progress_within_attempt:
  assumes "worker e wn st j = (st', r)"
  shows "sorted (attemptProgress st st')
       \<and> (\<forall>p \<in> set (attemptProgress st st'). 10 \<le> p \<and> p \<le> 100)
       \<and> (attemptProgress st st' \<noteq> [] \<longrightarrow> hd (attemptProgress st st') = 10)
       \<and> ((\<exists>result. r = Inr result) \<longrightarrow> last (attemptProgress st st') = 100)
       \<and> progress st' = (if attemptProgress st st' = [] then progress st
                         else last (attemptProgress st st'))"
proof -
  from worker_run [OF assms] obtain ps where
    log: "progressLog st' = progressLog st @ ps"
    and ps: "sorted ps" "\<forall>p \<in> set ps. 10 \<le> p \<and> p \<le> 100" "ps \<noteq> [] \<longrightarrow> hd ps = 10"
      "\<forall>result. r = Inr result \<longrightarrow> ps \<noteq> [] \<and> last ps = 100"
      "progress st' = (if ps = [] then progress st else last ps)"
    by blast
  show ?thesis
    unfolding attemptProgress_append [OF log] using ps by blast
qed

text \<open>The amended C9 at the second attempt.\<close>

theorem C9_witness:
  "worker env0 ''worker-1'' ((fst firstAttempt)\<lparr> writesLeft := None \<rparr>)
       ((jobFor ''report'' ''alice'' 5)\<lparr> attemptsMade := 1 \<rparr>)
     = (fst secondAttempt, snd secondAttempt)
   \<and> attemptProgress ((fst firstAttempt)\<lparr> writesLeft := None \<rparr>) (fst secondAttempt)
       = [10, 20, 40, 60, 80, 90, 100]
   \<and> sorted (attemptProgress ((fst firstAttempt)\<lparr> writesLeft := None \<rparr>) (fst secondAttempt))
   \<and> progress (fst secondAttempt) = 100"
proof -
  have a: "worker env0 ''worker-1'' ((fst firstAttempt)\<lparr> writesLeft := None \<rparr>)
             ((jobFor ''report'' ''alice'' 5)\<lparr> attemptsMade := 1 \<rparr>)
           = (fst secondAttempt, snd secondAttempt)"
    by (simp add: secondAttempt_def)
  have b: "attemptProgress ((fst firstAttempt)\<lparr> writesLeft := None \<rparr>) (fst secondAttempt)
             = [10, 20, 40, 60, 80, 90, 100]"
    by (simp add: secondAttempt_log attemptProgress_def) (simp add: firstAttempt_eq)
  from C9_progress_within_attempt [OF a] a b
  show ?thesis by simp
qed

section \<open>Notification routing\<close>

lemma receivers_room:
  "receivers ss [(ToRoom r, ev, n), (ToRoom r, ev', n')]
     = set (map socket_id (filter (\<lambda>s. r \<in> set (rooms s)) ss))"
  by (auto simp: receivers_def deliveries_def)

lemma receivers_all:
  "receivers ss ((ToAll, ev, n) # es) \<supseteq> socket_id ` set ss"
  by (auto simp: receivers_def deliveries_def)

lemma receivers_subset: "receivers ss es \<subseteq> socket_id ` set ss"
proof (induction es)
  case Nil
  show ?case by (simp add: receivers_def deliveries_def)
next
  case (Cons x es)
  obtain t ev n where x: "x = (t, ev, n)" by (cases x)
  have "set (recipients ss t) \<subseteq> socket_id ` set ss"
    by (cases t) auto
  with Cons x show ?case
    by (auto simp: receivers_def deliveries_def)
qed

lemma receivers_broadcast: "receivers ss ((ToAll, ev, n) # es) = set (map socket_id ss)"
  using receivers_all [of ss ev n es] receivers_subset [of ss "(ToAll, ev, n) # es"]
  by auto

lemma routeMessage_targeted:
  assumes "routeMessage e channel (Json d) = Inr es"
    and "channel = ''task:completed'' \<or> channel = ''task:failed''"
    and "truthy (field d ''userId'')" and "field d ''userId'' \<noteq> Str ''anonymous''"
  shows "\<exists>n u. toStr e (field d ''userId'') = Inr u \<and> n_event n = channel
           \<and> es = [(ToRoom (''user:'' @ u), ''notification'', n),
                   (ToRoom (''user:'' @ u), channel, n)]"
  using assms
  by (auto simp: routeMessage_def handleTaskCompleted_def handleTaskFailed_def Let_def
      split: sum.splits if_splits)

lemma routeMessage_anonymous:
  assumes "routeMessage e channel (Json d) = Inr es"
    and "channel = ''task:completed'' \<or> channel = ''task:failed''"
    and "\<not> (truthy (field d ''userId'') \<and> field d ''userId'' \<noteq> Str ''anonymous'')"
  shows "\<exists>n. n_event n = channel \<and> es = [(ToAll, ''notification'', n)]"
  using assms
  by (auto simp: routeMessage_def handleTaskCompleted_def handleTaskFailed_def Let_def
      split: sum.splits if_splits)

lemma routeMessage_system:
  assumes "routeMessage e ''system:broadcast'' (Json d) = Inr es"
  shows "\<exists>n. n_event n = ''system:broadcast''
           \<and> es = [(ToAll, ''notification'', n), (ToAll, ''system:broadcast'', n)]"
  using assms
  by (auto simp: routeMessage_def handleSystemBroadcast_def Let_def
      split: sum.splits if_splits)

text \<open>
  When the handler throws: on a text that is not JSON, on a \<^verbatim>\<open>null\<close> body, and on a body
  whose \<^verbatim>\<open>jobId\<close> or \<^verbatim>\<open>userId\<close>, or (on the three task channels) \<^verbatim>\<open>taskType\<close>, has no
  text.
\<close>

lemma routeMessage_malformed:
  "routeMessage e channel (Malformed s) = Inl (SyntaxError ''Unexpected token in JSON'')"
  by (simp add: routeMessage_def)

lemma routeMessage_throws_iff:
  "(\<exists>err. routeMessage e channel (Json d) = Inl err) \<longleftrightarrow>
     nullish d
     \<or> (\<exists>err. toStr e (field d ''jobId'') = Inl err)
     \<or> (\<exists>err. toStr e (field d ''userId'') = Inl err)
     \<or> ((channel = ''task:completed'' \<or> channel = ''task:failed'' \<or> channel = ''task:started'')
         \<and> (\<exists>err. toStr e (field d ''taskType'') = Inl err))"
  by (auto simp: routeMessage_def handleTaskCompleted_def handleTaskFailed_def
      handleTaskStarted_def handleSystemBroadcast_def Let_def split: sum.splits)

lemma routeMessage_string_event:
  assumes "\<not> nullish d" and "field d ''jobId'' = Str a" and "field d ''taskType'' = Str b"
    and "field d ''userId'' = Str ''anonymous''"
    and "channel = ''task:completed'' \<or> channel = ''task:failed''"
  shows "\<exists>n. routeMessage e channel (Json d) = Inr [(ToAll, ''notification'', n)]"
  using assms
  by (auto simp: routeMessage_def handleTaskCompleted_def handleTaskFailed_def Let_def)

lemma onMessage_emitted:
  "emitted (onMessage e sub channel m)
     = emitted sub @ (case routeMessage e channel m of Inl _ \<Rightarrow> [] | Inr es \<Rightarrow> es)"
  by (simp add: onMessage_def split: sum.splits)

lemma onMessages_append:
  "onMessages sub (ms @ ms') = onMessages (onMessages sub ms) ms'"
  by (induction ms arbitrary: sub) auto

lemma onMessages_emitted:
  "emitted (onMessages sub ms)
     = emitted sub @ concat (map (\<lambda>(e, channel, m).
         case routeMessage e channel m of Inl _ \<Rightarrow> [] | Inr es \<Rightarrow> es) ms)"
  by (induction ms arbitrary: sub) (auto simp: onMessage_emitted)

lemma onMessages_errorLog:
  "errorLog (onMessages sub ms)
     = errorLog sub @ concat (map (\<lambda>(e, channel, m).
         case routeMessage e channel m of Inl err \<Rightarrow> [(err, m)] | Inr _ \<Rightarrow> []) ms)"
  by (induction ms arbitrary: sub) (auto simp: onMessage_def split: sum.splits)

text \<open>
  C7.  For every incoming message on which the handler throws (a text that is not JSON
  always does; so does every body on which a property read or a conversion to text
  throws), on any channel and in any state of the subscriber: the handler returns, with
  the error and the raw message logged and nothing emitted; and in any run of messages the
  emits are the same with and without this message, so the messages before and after it
  are processed as if it had not come.
\<close>

theorem C7_throwing_message_dropped:
  assumes "routeMessage e channel m = Inl err"
  shows "(\<exists>err'. routeMessage e' channel' (Malformed s) = Inl err')
       \<and> onMessage e sub channel m = sub\<lparr> errorLog := errorLog sub @ [(err, m)] \<rparr>
       \<and> emitted (onMessage e sub channel m) = emitted sub
       \<and> emitted (onMessages sub (pre @ (e, channel, m) # post))
           = emitted (onMessages sub (pre @ post))
       \<and> (err, m) \<in> set (errorLog (onMessages sub (pre @ (e, channel, m) # post)))"
proof -
  have mal: "\<exists>err'. routeMessage e' channel' (Malformed s) = Inl err'"
    by (simp add: routeMessage_def)
  from assms
  have one: "onMessage e sub channel m = sub\<lparr> errorLog := errorLog sub @ [(err, m)] \<rparr>"
    by (simp add: onMessage_def)
  then have two: "emitted (onMessage e sub channel m) = emitted sub"
    by simp
  have "emitted (onMessages sub (pre @ (e, channel, m) # post))
          = emitted (onMessages sub (pre @ post))"
    using assms by (simp add: onMessages_emitted)
  moreover have "(err, m) \<in> set (errorLog (onMessages sub (pre @ (e, channel, m) # post)))"
    using assms by (simp add: onMessages_errorLog)
  ultimately show ?thesis
    using mal one two by blast
qed

text \<open>
  C7 at a text that is not JSON, at the body \<^verbatim>\<open>null\<close> and at a body whose \<^verbatim>\<open>jobId\<close> is
  the object \<^verbatim>\<open>{"toString": 1}\<close>, each between a \<^verbatim>\<open>task:completed\<close> event and a
  \<^verbatim>\<open>system:broadcast\<close> event.
\<close>

theorem C7_witness:
  "routeMessage env0 ''task:completed'' (Malformed ''{not json'')
     = Inl (SyntaxError ''Unexpected token in JSON'')
   \<and> routeMessage env0 ''task:failed'' (Json Null) = Inl nullRead
   \<and> routeMessage env0 ''system:broadcast''
       (Json (Obj [(''jobId'', Obj [(''toString'', Num 1)])])) = Inl cannotConvert
   \<and> onMessage env0 \<lparr> emitted = [], errorLog = [] \<rparr> ''task:completed'' (Malformed ''{not json'')
       = \<lparr> emitted = [],
           errorLog = [(SyntaxError ''Unexpected token in JSON'', Malformed ''{not json'')] \<rparr>
   \<and> onMessage env0 \<lparr> emitted = [], errorLog = [] \<rparr> ''system:broadcast''
       (Json (Obj [(''jobId'', Obj [(''toString'', Num 1)])]))
       = \<lparr> emitted = [],
           errorLog = [(cannotConvert, Json (Obj [(''jobId'', Obj [(''toString'', Num 1)])]))] \<rparr>
   \<and> emitted (onMessages \<lparr> emitted = [], errorLog = [] \<rparr>
        ([(env0, ''task:completed'', Json (eventFor (Str ''alice'')))]
          @ (env0, ''task:completed'', Malformed ''{not json'')
          # [(env0, ''system:broadcast'', Json (eventFor (Str ''bob'')))]))
     = emitted (onMessages \<lparr> emitted = [], errorLog = [] \<rparr>
        ([(env0, ''task:completed'', Json (eventFor (Str ''alice'')))]
          @ [(env0, ''system:broadcast'', Json (eventFor (Str ''bob'')))]))
   \<and> emitted (onMessages \<lparr> emitted = [], errorLog = [] \<rparr>
        ([(env0, ''task:completed'', Json (eventFor (Str ''alice'')))]
          @ (env0, ''task:failed'', Json Null)
          # [(env0, ''system:broadcast'', Json (eventFor (Str ''bob'')))]))
     = emitted (onMessages \<lparr> emitted = [], errorLog = [] \<rparr>
        ([(env0, ''task:completed'', Json (eventFor (Str ''alice'')))]
          @ [(env0, ''system:broadcast'', Json (eventFor (Str ''bob'')))]))
   \<and> emitted (onMessages \<lparr> emitted = [], errorLog = [] \<rparr>
        ([(env0, ''task:completed'', Json (eventFor (Str ''alice'')))]
          @ (env0, ''system:broadcast'', Json (Obj [(''jobId'', Obj [(''toString'', Num 1)])]))
          # [(env0, ''system:broadcast'', Json (eventFor (Str ''bob'')))]))
     = emitted (onMessages \<lparr> emitted = [], errorLog = [] \<rparr>
        ([(env0, ''task:completed'', Json (eventFor (Str ''alice'')))]
          @ [(env0, ''system:broadcast'', Json (eventFor (Str ''bob'')))]))
   \<and> map (\<lambda>(t, ev, n). (t, ev)) (emitted (onMessages \<lparr> emitted = [], errorLog = [] \<rparr>
        ([(env0, ''task:completed'', Json (eventFor (Str ''alice'')))]
          @ [(env0, ''system:broadcast'', Json (eventFor (Str ''bob'')))])))
     = [(ToRoom ''user:alice'', ''notification''), (ToRoom ''user:alice'', ''task:completed''),
        (ToAll, ''notification''), (ToAll, ''system:broadcast'')]"
proof -
  let ?sub = "\<lparr> emitted = [], errorLog = [] \<rparr>"
  let ?pre = "[(env0, ''task:completed'', Json (eventFor (Str ''alice'')))]"
  let ?post = "[(env0, ''system:broadcast'', Json (eventFor (Str ''bob'')))]"
  have a1: "routeMessage env0 ''task:completed'' (Malformed ''{not json'')
              = Inl (SyntaxError ''Unexpected token in JSON'')"
    by (simp add: routeMessage_def)
  have a2: "routeMessage env0 ''task:failed'' (Json Null) = Inl nullRead"
    by (simp add: routeMessage_def nullish_def)
  have a3: "routeMessage env0 ''system:broadcast''
              (Json (Obj [(''jobId'', Obj [(''toString'', Num 1)])])) = Inl cannotConvert"
    by (simp add: routeMessage_def nullish_def)
  have c: "map (\<lambda>(t, ev, n). (t, ev)) (emitted (onMessages ?sub (?pre @ ?post)))
     = [(ToRoom ''user:alice'', ''notification''), (ToRoom ''user:alice'', ''task:completed''),
        (ToAll, ''notification''), (ToAll, ''system:broadcast'')]"
    by (simp add: onMessage_def routeMessage_def handleTaskCompleted_def
        handleSystemBroadcast_def eventFor_def nullish_def Let_def)
  note t1 = C7_throwing_message_dropped [OF a1, of env0 "''task:completed''" "''{not json''"
      ?sub ?pre ?post]
  note t2 = C7_throwing_message_dropped [OF a2, of env0 "''task:completed''" "''{not json''"
      ?sub ?pre ?post]
  note t3 = C7_throwing_message_dropped [OF a3, of env0 "''task:completed''" "''{not json''"
      ?sub ?pre ?post]
  have b1: "onMessage env0 ?sub ''task:completed'' (Malformed ''{not json'')
       = \<lparr> emitted = [],
           errorLog = [(SyntaxError ''Unexpected token in JSON'', Malformed ''{not json'')] \<rparr>"
    using t1 by simp
  have b3: "onMessage env0 ?sub ''system:broadcast''
       (Json (Obj [(''jobId'', Obj [(''toString'', Num 1)])]))
       = \<lparr> emitted = [],
           errorLog = [(cannotConvert, Json (Obj [(''jobId'', Obj [(''toString'', Num 1)])]))] \<rparr>"
    using t3 by simp
  have d1: "emitted (onMessages ?sub
               (?pre @ (env0, ''task:completed'', Malformed ''{not json'') # ?post))
          = emitted (onMessages ?sub (?pre @ ?post))"
    using t1 by blast
  have d2: "emitted (onMessages ?sub (?pre @ (env0, ''task:failed'', Json Null) # ?post))
          = emitted (onMessages ?sub (?pre @ ?post))"
    using t2 by blast
  have d3: "emitted (onMessages ?sub
               (?pre @ (env0, ''system:broadcast'',
                        Json (Obj [(''jobId'', Obj [(''toString'', Num 1)])])) # ?post))
          = emitted (onMessages ?sub (?pre @ ?post))"
    using t3 by blast
  show ?thesis
    using a1 a2 a3 b1 b3 c d1 d2 d3 by (simp only: simp_thms)
qed

section \<open>From submission to notification\<close>

lemma event_userId:
  "field (dropUndefined (completedEvent e wn j result)) ''userId'' = optStr (jd_userId (job_data j))"
  "field (dropUndefined (failedEvent e wn j err)) ''userId'' = optStr (jd_userId (job_data j))"
  by (auto simp: completedEvent_def failedEvent_def optStr_def split: option.splits)

lemma event_jobId:
  "field (dropUndefined (completedEvent e wn j result)) ''jobId'' = Str (job_id j)"
  "field (dropUndefined (failedEvent e wn j err)) ''jobId'' = Str (job_id j)"
  "field (dropUndefined (completedEvent e wn j result)) ''taskType'' = Str (job_name j)"
  "field (dropUndefined (failedEvent e wn j err)) ''taskType'' = Str (job_name j)"
  by (simp_all add: completedEvent_def failedEvent_def)

lemma event_not_nullish:
  "\<not> nullish (dropUndefined (completedEvent e wn j result))"
  "\<not> nullish (dropUndefined (failedEvent e wn j err))"
  by (simp_all add: completedEvent_def failedEvent_def nullish_def)

lemma worker_published_events:
  assumes "(ch, m) \<in> set (attemptPublished st (fst (worker e wn st j)))"
  shows "(ch = ''task:completed'' \<and> (\<exists>result. m = JSON_stringify (completedEvent e wn j result)))
       \<or> (ch = ''task:failed'' \<and> (\<exists>err. m = JSON_stringify (failedEvent e wn j err)))"
proof -
  obtain st' r where w: "worker e wn st j = (st', r)"
    by (cases "worker e wn st j")
  from worker_run [OF w] obtain evs where
    pub: "published st' = published st @ (if pubReachable st then evs else [])"
    and evs: "case r of
                 Inr result \<Rightarrow>
                   evs = [(''task:completed'', JSON_stringify (completedEvent e wn j result))]
               | Inl err \<Rightarrow>
                   evs = [(''task:failed'', JSON_stringify (failedEvent e wn j err))]
                   \<or> (\<exists>result. evs =
                         [(''task:completed'', JSON_stringify (completedEvent e wn j result)),
                          (''task:failed'', JSON_stringify (failedEvent e wn j err))])"
    by blast
  from assms w have "(ch, m) \<in> set (if pubReachable st then evs else [])"
    by (simp add: attemptPublished_append [OF pub])
  then have "(ch, m) \<in> set evs"
    by (simp split: if_splits)
  with evs show ?thesis
    by (cases r) auto
qed

text \<open>
  C10.  For every task created through \<^verbatim>\<open>POST /api/tasks\<close> without a \<^verbatim>\<open>userId\<close>, the
  job appended to the queue has the user \<^verbatim>\<open>anonymous\<close>, and every event the processor
  publishes for a job with this data (\<^verbatim>\<open>task:completed\<close> or \<^verbatim>\<open>task:failed\<close>, at any
  attempt) makes the subscriber emit to all and to no room: every connected socket
  receives the notification.
\<close>

theorem C10_anonymous_submission_is_broadcast:
  assumes "body_userId r = None" and "postTask e r q = (Created v, q')"
  shows "\<exists>j. waiting q' = waiting q @ [j] \<and> job_id j = tv_id v
           \<and> jd_userId (job_data j) = Some ''anonymous''
           \<and> (\<forall>j' e1 wn st e2 ch m.
                 job_data j' = job_data j
                 \<and> (ch, m) \<in> set (attemptPublished st (fst (worker e1 wn st j')))
                 \<longrightarrow> (ch = ''task:completed'' \<or> ch = ''task:failed'')
                     \<and> (\<exists>es. routeMessage e2 ch m = Inr es
                            \<and> fst ` set es = {ToAll}
                            \<and> (\<forall>ss. receivers ss es = set (map socket_id ss))))"
proof -
  from assms(2) have v: "validateTask e (bodyOf r) = []"
    by (auto simp: postTask_def split: if_splits)
  then obtain t where t: "body_type r = Some t"
    by (auto simp: validateTask_nil admissible_def)
  let ?td = "\<lparr> td_type = t, td_data = body_data r,
               td_priority = Some (case body_priority r of None \<Rightarrow> 5 | Some p \<Rightarrow> p),
               td_userId = Some (orElse (body_userId r) ''anonymous'') \<rparr>"
  from assms(2) v t obtain j where
    add: "addTaskToQueue e ?td q = Inr (j, q')" and id: "tv_id v = job_id j"
    by (auto simp: postTask_def Let_def split: sum.splits)
  from addTaskToQueue_Inr [OF add] assms(1)
  have j: "waiting q' = waiting q @ [j]" "jd_userId (job_data j) = Some ''anonymous''"
    by (simp_all add: orElse_def)
  have route: "(ch = ''task:completed'' \<or> ch = ''task:failed'')
         \<and> (\<exists>es. routeMessage e2 ch m = Inr es
                \<and> fst ` set es = {ToAll}
                \<and> (\<forall>ss. receivers ss es = set (map socket_id ss)))"
    if same: "job_data j' = job_data j"
      and pub: "(ch, m) \<in> set (attemptPublished st (fst (worker e1 wn st j')))"
    for j' e1 wn st e2 ch m
  proof -
    have uid: "jd_userId (job_data j') = Some ''anonymous''"
      using same j(2) by simp
    from worker_published_events [OF pub]
    obtain d where ch: "ch = ''task:completed'' \<or> ch = ''task:failed''"
      and m: "m = Json d" and d: "\<not> nullish d" "field d ''userId'' = Str ''anonymous''"
        "field d ''jobId'' = Str (job_id j')" "field d ''taskType'' = Str (job_name j')"
      using uid event_userId [of e1 wn j'] event_not_nullish [of e1 wn j']
        event_jobId [of e1 wn j']
      by (auto simp: JSON_stringify_def optStr_def)
    from routeMessage_string_event [OF d(1) d(3) d(4) d(2) ch, of e2]
    obtain n where "routeMessage e2 ch (Json d) = Inr [(ToAll, ''notification'', n)]"
      by auto
    with m have "routeMessage e2 ch m = Inr [(ToAll, ''notification'', n)]
        \<and> fst ` set [(ToAll, ''notification'', n)] = {ToAll}
        \<and> (\<forall>ss. receivers ss [(ToAll, ''notification'', n)] = set (map socket_id ss))"
      using receivers_broadcast [of _ "''notification''" n "[]"] by simp
    with ch show ?thesis
      by blast
  qed
  from j id route show ?thesis
    by (intro exI [of _ j]) (simp only: simp_thms, blast)
qed

text \<open>C10 at an email request without a user.\<close>

theorem C10_witness:
  "body_userId (requestFor ''email'' 5 None) = None
   \<and> postTask env0 (requestFor ''email'' 5 None) queue0
       = (Created \<lparr> tv_id = ''email-1700000000000-k3j9x0q1z'', tv_type = ''email'',
                    tv_status = ''queued'', tv_priority = 5,
                    tv_queuedAt = ''2023-11-14T22:13:20.000Z'' \<rparr>,
          \<lparr> waiting = [jobFor ''email'' ''anonymous'' 5], reachable = True \<rparr>)
   \<and> (\<exists>m. attemptPublished store0
              (fst (worker env0 ''worker-1'' store0 (jobFor ''email'' ''anonymous'' 5)))
            = [(''task:completed'', m)]
          \<and> emitHeads (routeMessage env0 ''task:completed'' m)
              = Some [(ToAll, ''notification'')])
   \<and> recipients sockets0 ToAll = [''s1'', ''s2'', ''s3'']
   \<and> (\<exists>j. waiting \<lparr> waiting = [jobFor ''email'' ''anonymous'' 5], reachable = True \<rparr>
             = waiting queue0 @ [j]
           \<and> jd_userId (job_data j) = Some ''anonymous'')"
proof -
  have a: "body_userId (requestFor ''email'' 5 None) = None"
    by (simp add: requestFor_def)
  have b: "postTask env0 (requestFor ''email'' 5 None) queue0
       = (Created \<lparr> tv_id = ''email-1700000000000-k3j9x0q1z'', tv_type = ''email'',
                    tv_status = ''queued'', tv_priority = 5,
                    tv_queuedAt = ''2023-11-14T22:13:20.000Z'' \<rparr>,
          \<lparr> waiting = [jobFor ''email'' ''anonymous'' 5], reachable = True \<rparr>)"
    by (simp add: requestFor_def postTask_def validateTask_def bodyOf_def taskTypes_def
        isIn_def isInt_def validatorText_def orElse_def
        addTaskToQueue_def taskQueue_add_def Let_def defaultJobOptions_def jobFor_def
        env0_def queue0_def)
  have c: "\<exists>m. attemptPublished store0
              (fst (worker env0 ''worker-1'' store0 (jobFor ''email'' ''anonymous'' 5)))
            = [(''task:completed'', m)]
          \<and> emitHeads (routeMessage env0 ''task:completed'' m)
              = Some [(ToAll, ''notification'')]"
    by (simp add: worker_def workerCatch_def updateProgress_def store0_def
        processTask_def processEmailTask_def jobFor_def Let_def
        publishTaskEvent_def attemptPublished_def completedEvent_def JSON_stringify_def
        optStr_def emitHeads_def routeMessage_def handleTaskCompleted_def nullish_def)
  have d: "recipients sockets0 ToAll = [''s1'', ''s2'', ''s3'']"
    by (simp add: sockets0_def)
  from C10_anonymous_submission_is_broadcast [OF a b]
  have "\<exists>j. waiting \<lparr> waiting = [jobFor ''email'' ''anonymous'' 5], reachable = True \<rparr>
             = waiting queue0 @ [j]
           \<and> jd_userId (job_data j) = Some ''anonymous''"
    by blast
  with a b c d show ?thesis
    by (simp only: simp_thms)
qed

section \<open>Targets and channels of the notifications\<close>

text \<open>
  C4, as stated, fails.  An event whose \<^verbatim>\<open>userId\<close> is there, is the empty string and so
  is not \<^verbatim>\<open>anonymous\<close>, is not sent to a room of that user: the guard
  \<^verbatim>\<open>data.userId && ...\<close> takes it for no user, and the notification goes to all.
\<close>

theorem C4_counterexample:
  "field (eventFor (Str [])) ''userId'' = Str []
   \<and> Str [] \<noteq> Str ''anonymous''
   \<and> emitHeads (routeMessage env0 ''task:completed'' (Json (eventFor (Str []))))
       = Some [(ToAll, ''notification'')]
   \<and> emitHeads (routeMessage env0 ''task:failed'' (Json (eventFor (Str []))))
       = Some [(ToAll, ''notification'')]
   \<and> recipients sockets0 ToAll = [''s1'', ''s2'', ''s3'']"
  by (simp add: emitHeads_def routeMessage_def handleTaskCompleted_def handleTaskFailed_def
      eventFor_def nullish_def Let_def sockets0_def)

text \<open>
  C4, amended.  For every \<^verbatim>\<open>task:completed\<close> or \<^verbatim>\<open>task:failed\<close> event that the
  handler reads without throwing (the body parses to a value other than \<^verbatim>\<open>null\<close>, and
  its \<^verbatim>\<open>jobId\<close>, \<^verbatim>\<open>userId\<close> and \<^verbatim>\<open>taskType\<close> have a text) and whose \<^verbatim>\<open>userId\<close> is
  truthy (not missing, \<^verbatim>\<open>null\<close>, \<^verbatim>\<open>false\<close>, 0 or the empty string) and not
  \<^verbatim>\<open>anonymous\<close>, every emit goes to the room \<^verbatim>\<open>user:\<close> followed by the text of the
  \<^verbatim>\<open>userId\<close>, and exactly the sockets in that room receive something; for every such
  event whose \<^verbatim>\<open>userId\<close> is falsy or \<^verbatim>\<open>anonymous\<close>, every emit goes to all and every
  connected socket receives it; and every \<^verbatim>\<open>system:broadcast\<close> event that the handler
  reads without throwing goes to all connected sockets, whatever its fields.
\<close>

theorem C4_notification_targeting:
  assumes "routeMessage e channel (Json d) = Inr es"
  shows "((channel = ''task:completed'' \<or> channel = ''task:failed'')
            \<and> truthy (field d ''userId'') \<and> field d ''userId'' \<noteq> Str ''anonymous''
          \<longrightarrow> (\<exists>u. toStr e (field d ''userId'') = Inr u
                 \<and> fst ` set es = {ToRoom (''user:'' @ u)}
                 \<and> (\<forall>ss. receivers ss es
                      = set (map socket_id (filter
                          (\<lambda>s. (''user:'' @ u) \<in> set (rooms s)) ss)))))
       \<and> ((channel = ''task:completed'' \<or> channel = ''task:failed'')
            \<and> \<not> (truthy (field d ''userId'') \<and> field d ''userId'' \<noteq> Str ''anonymous'')
          \<longrightarrow> fst ` set es = {ToAll}
              \<and> (\<forall>ss. receivers ss es = set (map socket_id ss)))
       \<and> (channel = ''system:broadcast''
          \<longrightarrow> fst ` set es = {ToAll}
              \<and> (\<forall>ss. receivers ss es = set (map socket_id ss)))"
proof -
  have targeted: "\<exists>u. toStr e (field d ''userId'') = Inr u
                 \<and> fst ` set es = {ToRoom (''user:'' @ u)}
                 \<and> (\<forall>ss. receivers ss es
                      = set (map socket_id (filter
                          (\<lambda>s. (''user:'' @ u) \<in> set (rooms s)) ss)))"
    if h: "(channel = ''task:completed'' \<or> channel = ''task:failed'')
            \<and> truthy (field d ''userId'') \<and> field d ''userId'' \<noteq> Str ''anonymous''"
  proof -
    from h routeMessage_targeted [OF assms] obtain n u where
      u: "toStr e (field d ''userId'') = Inr u"
      and es: "es = [(ToRoom (''user:'' @ u), ''notification'', n),
                     (ToRoom (''user:'' @ u), channel, n)]"
      by blast
    let ?room = "''user:'' @ u"
    from es have "fst ` set es = {ToRoom ?room}
        \<and> (\<forall>ss. receivers ss es
               = set (map socket_id (filter (\<lambda>s. ?room \<in> set (rooms s)) ss)))"
      using receivers_room [of _ ?room "''notification''" n channel n]
      by simp
    with u show ?thesis
      by blast
  qed
  have broadcast: "fst ` set es = {ToAll} \<and> (\<forall>ss. receivers ss es = set (map socket_id ss))"
    if h: "(channel = ''task:completed'' \<or> channel = ''task:failed'')
            \<and> \<not> (truthy (field d ''userId'') \<and> field d ''userId'' \<noteq> Str ''anonymous'')"
  proof -
    from h routeMessage_anonymous [OF assms] obtain n where
      "es = [(ToAll, ''notification'', n)]"
      by blast
    then show ?thesis
      using receivers_broadcast [of _ "''notification''" n "[]"]
      by simp
  qed
  have system: "fst ` set es = {ToAll} \<and> (\<forall>ss. receivers ss es = set (map socket_id ss))"
    if h: "channel = ''system:broadcast''"
  proof -
    from h routeMessage_system [of e d es] assms obtain n where
      "es = [(ToAll, ''notification'', n), (ToAll, ''system:broadcast'', n)]"
      by blast
    then show ?thesis
      using receivers_broadcast [of _ "''notification''" n "[(ToAll, ''system:broadcast'', n)]"]
      by simp
  qed
  from impI [OF targeted] impI [OF broadcast] impI [OF system] show ?thesis
    by (intro conjI)
qed

text \<open>
  The amended C4 at events for \<^verbatim>\<open>alice\<close>, for the user number 42 and for
  \<^verbatim>\<open>anonymous\<close>, with three sockets.
\<close>

theorem C4_witness:
  "truthy (field (eventFor (Str ''alice'')) ''userId'')
   \<and> field (eventFor (Str ''alice'')) ''userId'' \<noteq> Str ''anonymous''
   \<and> (\<exists>es. routeMessage env0 ''task:completed'' (Json (eventFor (Str ''alice''))) = Inr es
          \<and> fst ` set es = {ToRoom ''user:alice''}
          \<and> receivers sockets0 es = {''s1''})
   \<and> (\<exists>es. routeMessage env0 ''task:completed'' (Json (eventFor (Num 42))) = Inr es
          \<and> fst ` set es = {ToRoom ''user:42''}
          \<and> receivers sockets0 es = {})
   \<and> (\<exists>es. routeMessage env0 ''task:failed'' (Json (eventFor (Str ''anonymous''))) = Inr es
          \<and> fst ` set es = {ToAll}
          \<and> receivers sockets0 es = {''s1'', ''s2'', ''s3''})
   \<and> (\<exists>es. routeMessage env0 ''system:broadcast'' (Json (eventFor (Str ''alice''))) = Inr es
          \<and> fst ` set es = {ToAll}
          \<and> receivers sockets0 es = {''s1'', ''s2'', ''s3''})"
proof -
  have b: "field (eventFor (Str ''alice'')) ''userId'' = Str ''alice''"
    "field (eventFor (Str ''anonymous'')) ''userId'' = Str ''anonymous''"
    "field (eventFor (Num 42)) ''userId'' = Num 42"
    by (simp_all add: eventFor_def)
  have t: "toStr env0 (Str ''alice'') = Inr ''alice''" "toStr env0 (Num 42) = Inr ''42''"
    by (simp_all add: env0_def showInt_def showNat.simps [of 42] showNat.simps [of 4]
        decimalDigits_def)
  have c: "set (map socket_id (filter (\<lambda>s. ''user:alice'' \<in> set (rooms s)) sockets0))
             = {''s1''}"
    "set (map socket_id (filter (\<lambda>s. ''user:42'' \<in> set (rooms s)) sockets0)) = {}"
    "set (map socket_id sockets0) = {''s1'', ''s2'', ''s3''}"
    by (simp_all add: sockets0_def)
  obtain es1 where
    r1: "routeMessage env0 ''task:completed'' (Json (eventFor (Str ''alice''))) = Inr es1"
    by (simp add: routeMessage_def handleTaskCompleted_def eventFor_def nullish_def Let_def)
  obtain es2 where
    r2: "routeMessage env0 ''task:failed'' (Json (eventFor (Str ''anonymous''))) = Inr es2"
    by (simp add: routeMessage_def handleTaskFailed_def eventFor_def nullish_def Let_def)
  obtain es3 where
    r3: "routeMessage env0 ''system:broadcast'' (Json (eventFor (Str ''alice''))) = Inr es3"
    by (simp add: routeMessage_def handleSystemBroadcast_def eventFor_def nullish_def Let_def)
  obtain es4 where
    r4: "routeMessage env0 ''task:completed'' (Json (eventFor (Num 42))) = Inr es4"
    by (simp add: routeMessage_def handleTaskCompleted_def eventFor_def nullish_def Let_def)
  from C4_notification_targeting [OF r1] b(1) t(1)
  have es1: "fst ` set es1 = {ToRoom ''user:alice''}"
      "\<forall>ss. receivers ss es1
         = set (map socket_id (filter (\<lambda>s. ''user:alice'' \<in> set (rooms s)) ss))"
    by auto
  from C4_notification_targeting [OF r4] b(3) t(2)
  have es4: "fst ` set es4 = {ToRoom ''user:42''}"
      "\<forall>ss. receivers ss es4
         = set (map socket_id (filter (\<lambda>s. ''user:42'' \<in> set (rooms s)) ss))"
    by auto
  from C4_notification_targeting [OF r2] b(2)
  have es2: "fst ` set es2 = {ToAll}" "\<forall>ss. receivers ss es2 = set (map socket_id ss)"
    by auto
  from C4_notification_targeting [OF r3]
  have es3: "fst ` set es3 = {ToAll}" "\<forall>ss. receivers ss es3 = set (map socket_id ss)"
    by auto
  have "receivers sockets0 es1 = {''s1''}"
    and "receivers sockets0 es2 = {''s1'', ''s2'', ''s3''}"
    and "receivers sockets0 es3 = {''s1'', ''s2'', ''s3''}"
    and "receivers sockets0 es4 = {}"
    using es1(2) es2(2) es3(2) es4(2) c by (simp_all only:)
  with r1 r2 r3 r4 es1(1) es2(1) es3(1) es4(1) b show ?thesis
    by (simp only: simp_thms truthy.simps jsval.inject) auto
qed

text \<open>
  C5, as stated, fails.  A \<^verbatim>\<open>task:started\<close> event for a user is emitted on
  \<^verbatim>\<open>notification\<close> only, one for \<^verbatim>\<open>anonymous\<close> is not emitted at all, and a
  \<^verbatim>\<open>task:completed\<close> or \<^verbatim>\<open>task:failed\<close> event without a user is broadcast on
  \<^verbatim>\<open>notification\<close> only.
\<close>

theorem C5_counterexample:
  "emitHeads (routeMessage env0 ''task:started'' (Json (eventFor (Str ''alice''))))
     = Some [(ToRoom ''user:alice'', ''notification'')]
   \<and> emitHeads (routeMessage env0 ''task:started'' (Json (eventFor (Str ''anonymous''))))
     = Some []
   \<and> emitHeads (routeMessage env0 ''task:completed'' (Json (eventFor (Str ''anonymous''))))
     = Some [(ToAll, ''notification'')]
   \<and> emitHeads (routeMessage env0 ''task:failed'' (Json (eventFor Undefined)))
     = Some [(ToAll, ''notification'')]"
  by (simp add: emitHeads_def routeMessage_def handleTaskCompleted_def handleTaskFailed_def
      handleTaskStarted_def eventFor_def nullish_def Let_def)

text \<open>
  C5, amended.  For every \<^verbatim>\<open>task:completed\<close> or \<^verbatim>\<open>task:failed\<close> event that the
  handler reads without throwing and sends to the room of its user, and for every
  \<^verbatim>\<open>system:broadcast\<close> event that the handler reads without throwing, the same
  notification is emitted twice to the same target, and nothing else: on
  \<^verbatim>\<open>notification\<close> and on the channel named after the event.
\<close>

theorem C5_both_channels_when_targeted:
  assumes "routeMessage e channel (Json d) = Inr es"
  shows "((channel = ''task:completed'' \<or> channel = ''task:failed'')
            \<and> truthy (field d ''userId'') \<and> field d ''userId'' \<noteq> Str ''anonymous''
          \<longrightarrow> (\<exists>n u. toStr e (field d ''userId'') = Inr u \<and> n_event n = channel
                 \<and> es = [(ToRoom (''user:'' @ u), ''notification'', n),
                         (ToRoom (''user:'' @ u), channel, n)]))
       \<and> (channel = ''system:broadcast''
          \<longrightarrow> (\<exists>n. n_event n = ''system:broadcast''
                 \<and> es = [(ToAll, ''notification'', n), (ToAll, ''system:broadcast'', n)]))"
  using routeMessage_targeted [OF assms] routeMessage_system [of e d es] assms
  by blast

text \<open>
  The amended C5 at a \<^verbatim>\<open>task:failed\<close> event for \<^verbatim>\<open>alice\<close> and at a
  \<^verbatim>\<open>system:broadcast\<close> event.
\<close>

theorem C5_witness:
  "truthy (field (eventFor (Str ''alice'')) ''userId'')
   \<and> field (eventFor (Str ''alice'')) ''userId'' \<noteq> Str ''anonymous''
   \<and> (\<exists>es. routeMessage env0 ''task:failed'' (Json (eventFor (Str ''alice''))) = Inr es)
   \<and> emitHeads (routeMessage env0 ''task:failed'' (Json (eventFor (Str ''alice''))))
       = Some [(ToRoom ''user:alice'', ''notification''), (ToRoom ''user:alice'', ''task:failed'')]
   \<and> (\<exists>es. routeMessage env0 ''system:broadcast'' (Json (eventFor (Str ''alice''))) = Inr es)
   \<and> emitHeads (routeMessage env0 ''system:broadcast'' (Json (eventFor (Str ''alice''))))
       = Some [(ToAll, ''notification''), (ToAll, ''system:broadcast'')]"
proof -
  have b: "field (eventFor (Str ''alice'')) ''userId'' = Str ''alice''"
    by (simp add: eventFor_def)
  obtain es1 where
    r1: "routeMessage env0 ''task:failed'' (Json (eventFor (Str ''alice''))) = Inr es1"
    by (simp add: routeMessage_def handleTaskFailed_def eventFor_def nullish_def Let_def)
  obtain es2 where
    r2: "routeMessage env0 ''system:broadcast'' (Json (eventFor (Str ''alice''))) = Inr es2"
    by (simp add: routeMessage_def handleSystemBroadcast_def eventFor_def nullish_def Let_def)
  from C5_both_channels_when_targeted [OF r1] b
  obtain n where
    "es1 = [(ToRoom ''user:alice'', ''notification'', n),
            (ToRoom ''user:alice'', ''task:failed'', n)]"
    by auto
  moreover from C5_both_channels_when_targeted [OF r2]
  obtain n' where
    "es2 = [(ToAll, ''notification'', n'), (ToAll, ''system:broadcast'', n')]"
    by auto
  ultimately show ?thesis
    using r1 r2 b by (simp add: emitHeads_def)
qed

end
